theory Spec2Isabelle
  imports Main "HOL-Library.Word" "HOL-Library.Sublist"
begin

section \<open>Values of the program\<close>

subsection \<open>Parsed JSON\<close>

text \<open>
  \<^verbatim>\<open>homework_statuses.json()\<close> yields Python objects: \<^verbatim>\<open>None\<close>, \<^verbatim>\<open>bool\<close>, \<^verbatim>\<open>int\<close>,
  \<^verbatim>\<open>float\<close>, \<^verbatim>\<open>str\<close>, \<^verbatim>\<open>list\<close> and \<^verbatim>\<open>dict\<close> with \<^verbatim>\<open>str\<close> keys. A dict keeps its
  insertion order, so it is an association list; lookups take the first binding of a
  key (a parsed dict has one binding per key). A \<^verbatim>\<open>float\<close> is carried as the 64 bits of
  its IEEE representation: the program never computes with it. A \<^verbatim>\<open>str\<close> is carried as
  the bytes of its UTF-8 encoding.
\<close>

datatype json =
    JNull
  | JBool bool
  | JInt int
  | JFloat "64 word"
  | JStr string
  | JList "json list"
  | JDict "(string \<times> json) list"

text \<open>\<^verbatim>\<open>key in d\<close> and \<^verbatim>\<open>d.get(key)\<close> on a dict (\<^verbatim>\<open>get\<close> defaults to \<^verbatim>\<open>None\<close>).\<close>

definition has_key :: "(string \<times> json) list \<Rightarrow> string \<Rightarrow> bool" where
  "has_key d k = (map_of d k \<noteq> None)"

definition dict_get :: "(string \<times> json) list \<Rightarrow> string \<Rightarrow> json" where
  "dict_get d k = (case map_of d k of None \<Rightarrow> JNull | Some v \<Rightarrow> v)"

subsection \<open>Exceptions\<close>

text \<open>
  The classes of \<^verbatim>\<open>exceptions.py\<close> and the built-in classes the request cycle can raise.
  An exception value is its class and the single argument it was built with.
\<close>

datatype exn_class =
    CommonError
  | GeneralError
  | ConnectionError
  | WrongStatusCodeError
  | MessageNotSentError
  | TypeError
  | KeyError
  | AttributeError
  | RecursionError
  | ValueError
  | SystemExit

datatype exn = Exn exn_class string

fun exn_class_of :: "exn \<Rightarrow> exn_class" where
  "exn_class_of (Exn c m) = c"

fun exn_arg :: "exn \<Rightarrow> string" where
  "exn_arg (Exn c m) = m"

text \<open>
  \<^verbatim>\<open>isinstance(error, exceptions.GeneralError)\<close>: the class itself and its three
  subclasses \<^verbatim>\<open>ConnectionError\<close>, \<^verbatim>\<open>WrongStatusCodeError\<close>, \<^verbatim>\<open>MessageNotSentError\<close>.
\<close>

fun is_GeneralError :: "exn_class \<Rightarrow> bool" where
  "is_GeneralError GeneralError = True"
| "is_GeneralError ConnectionError = True"
| "is_GeneralError WrongStatusCodeError = True"
| "is_GeneralError MessageNotSentError = True"
| "is_GeneralError _ = False"

text \<open>\<^verbatim>\<open>isinstance(error, Exception)\<close>: every class above but \<^verbatim>\<open>SystemExit\<close>.\<close>

fun is_Exception :: "exn_class \<Rightarrow> bool" where
  "is_Exception SystemExit = False"
| "is_Exception _ = True"

subsection \<open>What the interpreter supplies\<close>

text \<open>
  Three functions of the Python runtime are parameters of the model: \<^verbatim>\<open>repr\<close> of a
  \<^verbatim>\<open>str\<close> (quoting and escaping), \<^verbatim>\<open>repr\<close> of a \<^verbatim>\<open>float\<close>, and the text of the message
  the interpreter attaches to an exception it raises itself on a given operand.
\<close>

record builtins =
  repr_str :: "string \<Rightarrow> string"
  repr_float :: "64 word \<Rightarrow> string"
  interp_msg :: "exn_class \<Rightarrow> json \<Rightarrow> string"

subsection \<open>Rendering values as text\<close>

text \<open>Decimal digits of a natural number and of an integer (\<^verbatim>\<open>str\<close> of an \<^verbatim>\<open>int\<close>).\<close>

definition digit :: "nat \<Rightarrow> char" where
  "digit n = char_of (48 + n)"

function str_nat :: "nat \<Rightarrow> string" where
  "str_nat n = (if n < 10 then [digit n] else str_nat (n div 10) @ [digit (n mod 10)])"
  by pat_completeness auto
termination
  by (relation "measure id") auto

declare str_nat.simps [simp del]

definition str_int :: "int \<Rightarrow> string" where
  "str_int i = (if i < 0 then ''-'' @ str_nat (nat (- i)) else str_nat (nat i))"

text \<open>\<^verbatim>\<open>sep.join(parts)\<close>.\<close>

fun join :: "string \<Rightarrow> string list \<Rightarrow> string" where
  "join sep [] = []"
| "join sep [x] = x"
| "join sep (x # y # ys) = x @ sep @ join sep (y # ys)"

text \<open>\<^verbatim>\<open>repr(v)\<close> and \<^verbatim>\<open>str(v)\<close>; \<^verbatim>\<open>str\<close> differs from \<^verbatim>\<open>repr\<close> on a \<^verbatim>\<open>str\<close> only.\<close>

fun py_repr :: "builtins \<Rightarrow> json \<Rightarrow> string" where
  "py_repr bi JNull = ''None''"
| "py_repr bi (JBool b) = (if b then ''True'' else ''False'')"
| "py_repr bi (JInt i) = str_int i"
| "py_repr bi (JFloat w) = repr_float bi w"
| "py_repr bi (JStr s) = repr_str bi s"
| "py_repr bi (JList xs) = ''['' @ join '', '' (map (py_repr bi) xs) @ '']''"
| "py_repr bi (JDict kvs) =
     ''{'' @ join '', '' (map (\<lambda>(k, v). repr_str bi k @ '': '' @ py_repr bi v) kvs) @ ''}''"

fun py_str :: "builtins \<Rightarrow> json \<Rightarrow> string" where
  "py_str bi (JStr s) = s"
| "py_str bi v = py_repr bi v"

text \<open>\<^verbatim>\<open>str(type(v))\<close>, for example \<^verbatim>\<open><class 'list'>\<close>.\<close>

fun type_name :: "json \<Rightarrow> string" where
  "type_name JNull = ''NoneType''"
| "type_name (JBool b) = ''bool''"
| "type_name (JInt i) = ''int''"
| "type_name (JFloat w) = ''float''"
| "type_name (JStr s) = ''str''"
| "type_name (JList xs) = ''list''"
| "type_name (JDict kvs) = ''dict''"

definition str_type :: "json \<Rightarrow> string" where
  "str_type v = ''<class '' @ [CHR 0x27] @ type_name v @ [CHR 0x27] @ ''>''"

text \<open>\<^verbatim>\<open>str(d.keys())\<close>, for example \<^verbatim>\<open>dict_keys(['homeworks', 'current_date'])\<close>.\<close>

definition str_keys :: "builtins \<Rightarrow> (string \<times> json) list \<Rightarrow> string" where
  "str_keys bi d = ''dict_keys(['' @ join '', '' (map (\<lambda>kv. repr_str bi (fst kv)) d) @ ''])''"

text \<open>
  \<^verbatim>\<open>str(error)\<close>: the argument, except for a \<^verbatim>\<open>KeyError\<close>, whose \<^verbatim>\<open>__str__\<close> is the
  \<^verbatim>\<open>repr\<close> of its argument.
\<close>

fun exn_str :: "builtins \<Rightarrow> exn \<Rightarrow> string" where
  "exn_str bi (Exn c m) = (if c = KeyError then repr_str bi m else m)"


section \<open>Text literals of the source\<close>

text \<open>
  The fixed pieces of the source's messages, as the bytes of their UTF-8 encoding. The
  text is Russian; each constant is preceded by an English rendering. A message built
  by an f-string is the concatenation of such pieces with the rendered values.
\<close>

text \<open>verdict_approved: \<^verbatim>\<open>Work checked: the reviewer liked everything. Hooray!\<close>\<close>

definition verdict_approved :: string where
  "verdict_approved = [CHR 0xD0, CHR 0xA0, CHR 0xD0, CHR 0xB0, CHR 0xD0, CHR 0xB1, CHR 0xD0,
     CHR 0xBE, CHR 0xD1, CHR 0x82, CHR 0xD0, CHR 0xB0, CHR 0x20, CHR 0xD0, CHR 0xBF, CHR 0xD1,
     CHR 0x80, CHR 0xD0, CHR 0xBE, CHR 0xD0, CHR 0xB2, CHR 0xD0, CHR 0xB5, CHR 0xD1, CHR 0x80,
     CHR 0xD0, CHR 0xB5, CHR 0xD0, CHR 0xBD, CHR 0xD0, CHR 0xB0, CHR 0x3A, CHR 0x20, CHR 0xD1,
     CHR 0x80, CHR 0xD0, CHR 0xB5, CHR 0xD0, CHR 0xB2, CHR 0xD1, CHR 0x8C, CHR 0xD1, CHR 0x8E,
     CHR 0xD0, CHR 0xB5, CHR 0xD1, CHR 0x80, CHR 0xD1, CHR 0x83, CHR 0x20, CHR 0xD0, CHR 0xB2,
     CHR 0xD1, CHR 0x81, CHR 0xD1, CHR 0x91, CHR 0x20, CHR 0xD0, CHR 0xBF, CHR 0xD0, CHR 0xBE,
     CHR 0xD0, CHR 0xBD, CHR 0xD1, CHR 0x80, CHR 0xD0, CHR 0xB0, CHR 0xD0, CHR 0xB2, CHR 0xD0,
     CHR 0xB8, CHR 0xD0, CHR 0xBB, CHR 0xD0, CHR 0xBE, CHR 0xD1, CHR 0x81, CHR 0xD1, CHR 0x8C,
     CHR 0x2E, CHR 0x20, CHR 0xD0, CHR 0xA3, CHR 0xD1, CHR 0x80, CHR 0xD0, CHR 0xB0, CHR 0x21]"

text \<open>verdict_reviewing: \<^verbatim>\<open>Work taken for checking by the reviewer.\<close>\<close>

definition verdict_reviewing :: string where
  "verdict_reviewing = [CHR 0xD0, CHR 0xA0, CHR 0xD0, CHR 0xB0, CHR 0xD0, CHR 0xB1, CHR 0xD0,
     CHR 0xBE, CHR 0xD1, CHR 0x82, CHR 0xD0, CHR 0xB0, CHR 0x20, CHR 0xD0, CHR 0xB2, CHR 0xD0,
     CHR 0xB7, CHR 0xD1, CHR 0x8F, CHR 0xD1, CHR 0x82, CHR 0xD0, CHR 0xB0, CHR 0x20, CHR 0xD0,
     CHR 0xBD, CHR 0xD0, CHR 0xB0, CHR 0x20, CHR 0xD0, CHR 0xBF, CHR 0xD1, CHR 0x80, CHR 0xD0,
     CHR 0xBE, CHR 0xD0, CHR 0xB2, CHR 0xD0, CHR 0xB5, CHR 0xD1, CHR 0x80, CHR 0xD0, CHR 0xBA,
     CHR 0xD1, CHR 0x83, CHR 0x20, CHR 0xD1, CHR 0x80, CHR 0xD0, CHR 0xB5, CHR 0xD0, CHR 0xB2,
     CHR 0xD1, CHR 0x8C, CHR 0xD1, CHR 0x8E, CHR 0xD0, CHR 0xB5, CHR 0xD1, CHR 0x80, CHR 0xD0,
     CHR 0xBE, CHR 0xD0, CHR 0xBC, CHR 0x2E]"

text \<open>verdict_rejected: \<^verbatim>\<open>Work checked: the reviewer has remarks.\<close>\<close>

definition verdict_rejected :: string where
  "verdict_rejected = [CHR 0xD0, CHR 0xA0, CHR 0xD0, CHR 0xB0, CHR 0xD0, CHR 0xB1, CHR 0xD0,
     CHR 0xBE, CHR 0xD1, CHR 0x82, CHR 0xD0, CHR 0xB0, CHR 0x20, CHR 0xD0, CHR 0xBF, CHR 0xD1,
     CHR 0x80, CHR 0xD0, CHR 0xBE, CHR 0xD0, CHR 0xB2, CHR 0xD0, CHR 0xB5, CHR 0xD1, CHR 0x80,
     CHR 0xD0, CHR 0xB5, CHR 0xD0, CHR 0xBD, CHR 0xD0, CHR 0xB0, CHR 0x3A, CHR 0x20, CHR 0xD1,
     CHR 0x83, CHR 0x20, CHR 0xD1, CHR 0x80, CHR 0xD0, CHR 0xB5, CHR 0xD0, CHR 0xB2, CHR 0xD1,
     CHR 0x8C, CHR 0xD1, CHR 0x8E, CHR 0xD0, CHR 0xB5, CHR 0xD1, CHR 0x80, CHR 0xD0, CHR 0xB0,
     CHR 0x20, CHR 0xD0, CHR 0xB5, CHR 0xD1, CHR 0x81, CHR 0xD1, CHR 0x82, CHR 0xD1, CHR 0x8C,
     CHR 0x20, CHR 0xD0, CHR 0xB7, CHR 0xD0, CHR 0xB0, CHR 0xD0, CHR 0xBC, CHR 0xD0, CHR 0xB5,
     CHR 0xD1, CHR 0x87, CHR 0xD0, CHR 0xB0, CHR 0xD0, CHR 0xBD, CHR 0xD0, CHR 0xB8, CHR 0xD1,
     CHR 0x8F, CHR 0x2E]"

text \<open>t_sending: \<^verbatim>\<open>Sending message \<close>\<close>

definition t_sending :: string where
  "t_sending = [CHR 0xD0, CHR 0x9E, CHR 0xD1, CHR 0x82, CHR 0xD0, CHR 0xBF, CHR 0xD1, CHR 0x80,
     CHR 0xD0, CHR 0xB0, CHR 0xD0, CHR 0xB2, CHR 0xD0, CHR 0xBB, CHR 0xD1, CHR 0x8F, CHR 0xD0,
     CHR 0xB5, CHR 0xD0, CHR 0xBC, CHR 0x20, CHR 0xD1, CHR 0x81, CHR 0xD0, CHR 0xBE, CHR 0xD0,
     CHR 0xBE, CHR 0xD0, CHR 0xB1, CHR 0xD1, CHR 0x89, CHR 0xD0, CHR 0xB5, CHR 0xD0, CHR 0xBD,
     CHR 0xD0, CHR 0xB8, CHR 0xD0, CHR 0xB5, CHR 0x20]"

text \<open>t_to_chat: \<^verbatim>\<open> to the telegram chat with id \<close>\<close>

definition t_to_chat :: string where
  "t_to_chat = [CHR 0x20, CHR 0xD0, CHR 0xB2, CHR 0x20, CHR 0xD1, CHR 0x87, CHR 0xD0, CHR 0xB0,
     CHR 0xD1, CHR 0x82, CHR 0x20, CHR 0xD1, CHR 0x82, CHR 0xD0, CHR 0xB5, CHR 0xD0, CHR 0xBB,
     CHR 0xD0, CHR 0xB5, CHR 0xD0, CHR 0xB3, CHR 0xD1, CHR 0x80, CHR 0xD0, CHR 0xB0, CHR 0xD0,
     CHR 0xBC, CHR 0xD0, CHR 0xBC, CHR 0xD0, CHR 0xB0, CHR 0x20, CHR 0xD1, CHR 0x81] @ '' id ''"

text \<open>t_send_failed: \<^verbatim>\<open>Error sending message \<close>\<close>

definition t_send_failed :: string where
  "t_send_failed = [CHR 0xD0, CHR 0x9E, CHR 0xD1, CHR 0x88, CHR 0xD0, CHR 0xB8, CHR 0xD0,
     CHR 0xB1, CHR 0xD0, CHR 0xBA, CHR 0xD0, CHR 0xB0, CHR 0x20, CHR 0xD0, CHR 0xBE, CHR 0xD1,
     CHR 0x82, CHR 0xD0, CHR 0xBF, CHR 0xD1, CHR 0x80, CHR 0xD0, CHR 0xB0, CHR 0xD0, CHR 0xB2,
     CHR 0xD0, CHR 0xBA, CHR 0xD0, CHR 0xB8, CHR 0x20, CHR 0xD1, CHR 0x81, CHR 0xD0, CHR 0xBE,
     CHR 0xD0, CHR 0xBE, CHR 0xD0, CHR 0xB1, CHR 0xD1, CHR 0x89, CHR 0xD0, CHR 0xB5, CHR 0xD0,
     CHR 0xBD, CHR 0xD0, CHR 0xB8, CHR 0xD1, CHR 0x8F, CHR 0x20]"

text \<open>t_sending_to: \<^verbatim>\<open> (sending to the chat with id \<close>\<close>

definition t_sending_to :: string where
  "t_sending_to = [CHR 0x20, CHR 0x28, CHR 0xD0, CHR 0xBE, CHR 0xD1, CHR 0x82, CHR 0xD0,
     CHR 0xBF, CHR 0xD1, CHR 0x80, CHR 0xD0, CHR 0xB0, CHR 0xD0, CHR 0xB2, CHR 0xD0, CHR 0xBA,
     CHR 0xD0, CHR 0xB0, CHR 0x20, CHR 0xD0, CHR 0xB2, CHR 0x20, CHR 0xD1, CHR 0x87, CHR 0xD0,
     CHR 0xB0, CHR 0xD1, CHR 0x82, CHR 0x20, CHR 0xD1, CHR 0x81] @ '' id ''"

text \<open>t_text: \<^verbatim>\<open>, text: \<close>\<close>

definition t_text :: string where
  "t_text = [CHR 0x2C, CHR 0x20, CHR 0xD1, CHR 0x82, CHR 0xD0, CHR 0xB5, CHR 0xD0, CHR 0xBA,
     CHR 0xD1, CHR 0x81, CHR 0xD1, CHR 0x82, CHR 0x3A, CHR 0x20]"

text \<open>t_message: \<^verbatim>\<open>Message \<close>\<close>

definition t_message :: string where
  "t_message = [CHR 0xD0, CHR 0xA1, CHR 0xD0, CHR 0xBE, CHR 0xD0, CHR 0xBE, CHR 0xD0, CHR 0xB1,
     CHR 0xD1, CHR 0x89, CHR 0xD0, CHR 0xB5, CHR 0xD0, CHR 0xBD, CHR 0xD0, CHR 0xB8, CHR 0xD0,
     CHR 0xB5, CHR 0x20]"

text \<open>t_sent: \<^verbatim>\<open> sent\<close>\<close>

definition t_sent :: string where
  "t_sent = [CHR 0x20, CHR 0xD0, CHR 0xBE, CHR 0xD1, CHR 0x82, CHR 0xD0, CHR 0xBF, CHR 0xD1,
     CHR 0x80, CHR 0xD0, CHR 0xB0, CHR 0xD0, CHR 0xB2, CHR 0xD0, CHR 0xBB, CHR 0xD0, CHR 0xB5,
     CHR 0xD0, CHR 0xBD, CHR 0xD0, CHR 0xBE]"

text \<open>t_requesting: \<^verbatim>\<open>Making a request to the service API with parameters \<close>\<close>

definition t_requesting :: string where
  "t_requesting = [CHR 0xD0, CHR 0x94, CHR 0xD0, CHR 0xB5, CHR 0xD0, CHR 0xBB, CHR 0xD0,
     CHR 0xB0, CHR 0xD0, CHR 0xB5, CHR 0xD0, CHR 0xBC, CHR 0x20, CHR 0xD0, CHR 0xB7, CHR 0xD0,
     CHR 0xB0, CHR 0xD0, CHR 0xBF, CHR 0xD1, CHR 0x80, CHR 0xD0, CHR 0xBE, CHR 0xD1, CHR 0x81,
     CHR 0x20, CHR 0xD0, CHR 0xBA] @ '' API '' @ [CHR 0xD1, CHR 0x81, CHR 0xD0, CHR 0xB5,
     CHR 0xD1, CHR 0x80, CHR 0xD0, CHR 0xB2, CHR 0xD0, CHR 0xB8, CHR 0xD1, CHR 0x81, CHR 0xD0,
     CHR 0xB0, CHR 0x20, CHR 0xD1, CHR 0x81, CHR 0x20, CHR 0xD0, CHR 0xBF, CHR 0xD0, CHR 0xB0,
     CHR 0xD1, CHR 0x80, CHR 0xD0, CHR 0xB0, CHR 0xD0, CHR 0xBC, CHR 0xD0, CHR 0xB5, CHR 0xD1,
     CHR 0x82, CHR 0xD1, CHR 0x80, CHR 0xD0, CHR 0xB0, CHR 0xD0, CHR 0xBC, CHR 0xD0, CHR 0xB8,
     CHR 0x20]"

text \<open>t_unexpected: \<^verbatim>\<open>Unexpected answer received from the server(expected HTTP Code \<close>\<close>

definition t_unexpected :: string where
  "t_unexpected = [CHR 0xD0, CHR 0x9F, CHR 0xD0, CHR 0xBE, CHR 0xD0, CHR 0xBB, CHR 0xD1,
     CHR 0x83, CHR 0xD1, CHR 0x87, CHR 0xD0, CHR 0xB5, CHR 0xD0, CHR 0xBD, CHR 0x20, CHR 0xD0,
     CHR 0xBD, CHR 0xD0, CHR 0xB5, CHR 0xD0, CHR 0xBE, CHR 0xD0, CHR 0xB6, CHR 0xD0, CHR 0xB8,
     CHR 0xD0, CHR 0xB4, CHR 0xD0, CHR 0xB0, CHR 0xD0, CHR 0xBD, CHR 0xD0, CHR 0xBD, CHR 0xD1,
     CHR 0x8B, CHR 0xD0, CHR 0xB9, CHR 0x20, CHR 0xD0, CHR 0xBE, CHR 0xD1, CHR 0x82, CHR 0xD0,
     CHR 0xB2, CHR 0xD0, CHR 0xB5, CHR 0xD1, CHR 0x82, CHR 0x20, CHR 0xD0, CHR 0xBE, CHR 0xD1,
     CHR 0x82, CHR 0x20, CHR 0xD1, CHR 0x81, CHR 0xD0, CHR 0xB5, CHR 0xD1, CHR 0x80, CHR 0xD0,
     CHR 0xB2, CHR 0xD0, CHR 0xB5, CHR 0xD1, CHR 0x80, CHR 0xD0, CHR 0xB0, CHR 0x28, CHR 0xD0,
     CHR 0xBE, CHR 0xD0, CHR 0xB6, CHR 0xD0, CHR 0xB8, CHR 0xD0, CHR 0xB4, CHR 0xD0, CHR 0xB0,
     CHR 0xD0, CHR 0xBB, CHR 0xD1, CHR 0x81, CHR 0xD1, CHR 0x8F] @ '' HTTP Code ''"

text \<open>t_received: \<^verbatim>\<open>, received \<close>\<close>

definition t_received :: string where
  "t_received = [CHR 0x2C, CHR 0x20, CHR 0xD0, CHR 0xBF, CHR 0xD0, CHR 0xBE, CHR 0xD0, CHR 0xBB,
     CHR 0xD1, CHR 0x83, CHR 0xD1, CHR 0x87, CHR 0xD0, CHR 0xB5, CHR 0xD0, CHR 0xBD, CHR 0x20]"

text \<open>t_request_url: \<^verbatim>\<open>, request to url: \<close>\<close>

definition t_request_url :: string where
  "t_request_url = [CHR 0x2C, CHR 0x20, CHR 0xD0, CHR 0xB7, CHR 0xD0, CHR 0xB0, CHR 0xD0,
     CHR 0xBF, CHR 0xD1, CHR 0x80, CHR 0xD0, CHR 0xBE, CHR 0xD1, CHR 0x81, CHR 0x20, CHR 0xD0,
     CHR 0xBA] @ '' url: ''"

text \<open>t_headers: \<^verbatim>\<open>, headers: \<close>\<close>

definition t_headers :: string where
  "t_headers = [CHR 0x2C, CHR 0x20, CHR 0xD0, CHR 0xB7, CHR 0xD0, CHR 0xB0, CHR 0xD0, CHR 0xB3,
     CHR 0xD0, CHR 0xBE, CHR 0xD0, CHR 0xBB, CHR 0xD0, CHR 0xBE, CHR 0xD0, CHR 0xB2, CHR 0xD0,
     CHR 0xBA, CHR 0xD0, CHR 0xB8, CHR 0x3A, CHR 0x20]"

text \<open>t_params_glued: \<^verbatim>\<open>,parameters: \<close>\<close>

definition t_params_glued :: string where
  "t_params_glued = [CHR 0x2C, CHR 0xD0, CHR 0xBF, CHR 0xD0, CHR 0xB0, CHR 0xD1, CHR 0x80,
     CHR 0xD0, CHR 0xB0, CHR 0xD0, CHR 0xBC, CHR 0xD0, CHR 0xB5, CHR 0xD1, CHR 0x82, CHR 0xD1,
     CHR 0x80, CHR 0xD1, CHR 0x8B, CHR 0x3A, CHR 0x20]"

text \<open>t_no_json: \<^verbatim>\<open>Could not get json from the answer: data format error \<close>\<close>

definition t_no_json :: string where
  "t_no_json = [CHR 0xD0, CHR 0x9D, CHR 0xD0, CHR 0xB5, CHR 0x20, CHR 0xD1, CHR 0x83, CHR 0xD0,
     CHR 0xB4, CHR 0xD0, CHR 0xB0, CHR 0xD0, CHR 0xBB, CHR 0xD0, CHR 0xBE, CHR 0xD1, CHR 0x81,
     CHR 0xD1, CHR 0x8C, CHR 0x20, CHR 0xD0, CHR 0xBF, CHR 0xD0, CHR 0xBE, CHR 0xD0, CHR 0xBB,
     CHR 0xD1, CHR 0x83, CHR 0xD1, CHR 0x87, CHR 0xD0, CHR 0xB8, CHR 0xD1, CHR 0x82, CHR 0xD1,
     CHR 0x8C] @ '' json '' @ [CHR 0xD0, CHR 0xB8, CHR 0xD0, CHR 0xB7, CHR 0x20, CHR 0xD0,
     CHR 0xBE, CHR 0xD1, CHR 0x82, CHR 0xD0, CHR 0xB2, CHR 0xD0, CHR 0xB5, CHR 0xD1, CHR 0x82,
     CHR 0xD0, CHR 0xB0, CHR 0x3A, CHR 0x20, CHR 0xD0, CHR 0xBE, CHR 0xD1, CHR 0x88, CHR 0xD0,
     CHR 0xB8, CHR 0xD0, CHR 0xB1, CHR 0xD0, CHR 0xBA, CHR 0xD0, CHR 0xB0, CHR 0x20, CHR 0xD1,
     CHR 0x84, CHR 0xD0, CHR 0xBE, CHR 0xD1, CHR 0x80, CHR 0xD0, CHR 0xBC, CHR 0xD0, CHR 0xB0,
     CHR 0xD1, CHR 0x82, CHR 0xD0, CHR 0xB0, CHR 0x20, CHR 0xD0, CHR 0xB4, CHR 0xD0, CHR 0xB0,
     CHR 0xD0, CHR 0xBD, CHR 0xD0, CHR 0xBD, CHR 0xD1, CHR 0x8B, CHR 0xD1, CHR 0x85, CHR 0x20]"

text \<open>t_paren_request_url: \<^verbatim>\<open> (request to url: \<close>\<close>

definition t_paren_request_url :: string where
  "t_paren_request_url = [CHR 0x20, CHR 0x28, CHR 0xD0, CHR 0xB7, CHR 0xD0, CHR 0xB0, CHR 0xD0,
     CHR 0xBF, CHR 0xD1, CHR 0x80, CHR 0xD0, CHR 0xBE, CHR 0xD1, CHR 0x81, CHR 0x20, CHR 0xD0,
     CHR 0xBA] @ '' url: ''"

text \<open>t_params: \<^verbatim>\<open>, parameters: \<close>\<close>

definition t_params :: string where
  "t_params = [CHR 0x2C, CHR 0x20, CHR 0xD0, CHR 0xBF, CHR 0xD0, CHR 0xB0, CHR 0xD1, CHR 0x80,
     CHR 0xD0, CHR 0xB0, CHR 0xD0, CHR 0xBC, CHR 0xD0, CHR 0xB5, CHR 0xD1, CHR 0x82, CHR 0xD1,
     CHR 0x80, CHR 0xD1, CHR 0x8B, CHR 0x3A, CHR 0x20]"

text \<open>t_connection: \<^verbatim>\<open>Connection error \<close>\<close>

definition t_connection :: string where
  "t_connection = [CHR 0xD0, CHR 0x9E, CHR 0xD1, CHR 0x88, CHR 0xD0, CHR 0xB8, CHR 0xD0,
     CHR 0xB1, CHR 0xD0, CHR 0xBA, CHR 0xD0, CHR 0xB0, CHR 0x20, CHR 0xD1, CHR 0x81, CHR 0xD0,
     CHR 0xBE, CHR 0xD0, CHR 0xB5, CHR 0xD0, CHR 0xB4, CHR 0xD0, CHR 0xB8, CHR 0xD0, CHR 0xBD,
     CHR 0xD0, CHR 0xB5, CHR 0xD0, CHR 0xBD, CHR 0xD0, CHR 0xB8, CHR 0xD1, CHR 0x8F, CHR 0x20]"

text \<open>t_checking: \<^verbatim>\<open>The API answer is being checked for correctness.\<close>\<close>

definition t_checking :: string where
  "t_checking = [CHR 0xD0, CHR 0x9F, CHR 0xD1, CHR 0x80, CHR 0xD0, CHR 0xBE, CHR 0xD0, CHR 0xB2,
     CHR 0xD0, CHR 0xB5, CHR 0xD1, CHR 0x80, CHR 0xD1, CHR 0x8F, CHR 0xD0, CHR 0xB5, CHR 0xD1,
     CHR 0x82, CHR 0xD1, CHR 0x81, CHR 0xD1, CHR 0x8F, CHR 0x20, CHR 0xD0, CHR 0xBE, CHR 0xD1,
     CHR 0x82, CHR 0xD0, CHR 0xB2, CHR 0xD0, CHR 0xB5, CHR 0xD1, CHR 0x82] @ '' API ''
     @ [CHR 0xD0, CHR 0xBD, CHR 0xD0, CHR 0xB0, CHR 0x20, CHR 0xD0, CHR 0xBA, CHR 0xD0,
     CHR 0xBE, CHR 0xD1, CHR 0x80, CHR 0xD1, CHR 0x80, CHR 0xD0, CHR 0xB5, CHR 0xD0, CHR 0xBA,
     CHR 0xD1, CHR 0x82, CHR 0xD0, CHR 0xBD, CHR 0xD0, CHR 0xBE, CHR 0xD1, CHR 0x81, CHR 0xD1,
     CHR 0x82, CHR 0xD1, CHR 0x8C, CHR 0x2E]"

text \<open>t_not_dict: \<^verbatim>\<open>The answer came back not as a dictionary(received \<close>\<close>

definition t_not_dict :: string where
  "t_not_dict = [CHR 0xD0, CHR 0x9E, CHR 0xD1, CHR 0x82, CHR 0xD0, CHR 0xB2, CHR 0xD0, CHR 0xB5,
     CHR 0xD1, CHR 0x82, CHR 0x20, CHR 0xD0, CHR 0xB2, CHR 0xD0, CHR 0xB5, CHR 0xD1, CHR 0x80,
     CHR 0xD0, CHR 0xBD, CHR 0xD1, CHR 0x83, CHR 0xD0, CHR 0xBB, CHR 0xD1, CHR 0x81, CHR 0xD1,
     CHR 0x8F, CHR 0x20, CHR 0xD0, CHR 0xBD, CHR 0xD0, CHR 0xB5, CHR 0x20, CHR 0xD0, CHR 0xB2,
     CHR 0x20, CHR 0xD0, CHR 0xB2, CHR 0xD0, CHR 0xB8, CHR 0xD0, CHR 0xB4, CHR 0xD0, CHR 0xB5,
     CHR 0x20, CHR 0xD1, CHR 0x81, CHR 0xD0, CHR 0xBB, CHR 0xD0, CHR 0xBE, CHR 0xD0, CHR 0xB2,
     CHR 0xD0, CHR 0xB0, CHR 0xD1, CHR 0x80, CHR 0xD1, CHR 0x8F, CHR 0x28, CHR 0xD0, CHR 0xB1,
     CHR 0xD1, CHR 0x8B, CHR 0xD0, CHR 0xBB, CHR 0x20, CHR 0xD0, CHR 0xBF, CHR 0xD0, CHR 0xBE,
     CHR 0xD0, CHR 0xBB, CHR 0xD1, CHR 0x83, CHR 0xD1, CHR 0x87, CHR 0xD0, CHR 0xB5, CHR 0xD0,
     CHR 0xBD, CHR 0x20]"

text \<open>t_instead: \<^verbatim>\<open> instead).\<close>\<close>

definition t_instead :: string where
  "t_instead = [CHR 0x20, CHR 0xD0, CHR 0xB2, CHR 0xD0, CHR 0xBC, CHR 0xD0, CHR 0xB5, CHR 0xD1,
     CHR 0x81, CHR 0xD1, CHR 0x82, CHR 0xD0, CHR 0xBE, CHR 0x20, CHR 0xD1, CHR 0x8D, CHR 0xD1,
     CHR 0x82, CHR 0xD0, CHR 0xBE, CHR 0xD0, CHR 0xB3, CHR 0xD0, CHR 0xBE, CHR 0x29, CHR 0x2E]"

text \<open>t_no_homeworks: \<^verbatim>\<open>Key homeworks is not in the dictionary(keys that came: \<close>\<close>

definition t_no_homeworks :: string where
  "t_no_homeworks = [CHR 0xD0, CHR 0x9A, CHR 0xD0, CHR 0xBB, CHR 0xD1, CHR 0x8E, CHR 0xD1,
     CHR 0x87, CHR 0xD0, CHR 0xB0] @ '' homeworks '' @ [CHR 0xD0, CHR 0xBD, CHR 0xD0, CHR 0xB5,
     CHR 0xD1, CHR 0x82, CHR 0x20, CHR 0xD0, CHR 0xB2, CHR 0x20, CHR 0xD1, CHR 0x81, CHR 0xD0,
     CHR 0xBB, CHR 0xD0, CHR 0xBE, CHR 0xD0, CHR 0xB2, CHR 0xD0, CHR 0xB0, CHR 0xD1, CHR 0x80,
     CHR 0xD0, CHR 0xB5, CHR 0x28, CHR 0xD0, CHR 0xBF, CHR 0xD1, CHR 0x80, CHR 0xD0, CHR 0xB8,
     CHR 0xD1, CHR 0x88, CHR 0xD0, CHR 0xBB, CHR 0xD0, CHR 0xB8, CHR 0x20, CHR 0xD0, CHR 0xBA,
     CHR 0xD0, CHR 0xBB, CHR 0xD1, CHR 0x8E, CHR 0xD1, CHR 0x87, CHR 0xD0, CHR 0xB8, CHR 0x20]"

text \<open>t_no_current_date: \<^verbatim>\<open>Key current_date is not in the dictionary(keys that came: \<close>\<close>

definition t_no_current_date :: string where
  "t_no_current_date = [CHR 0xD0, CHR 0x9A, CHR 0xD0, CHR 0xBB, CHR 0xD1, CHR 0x8E, CHR 0xD1,
     CHR 0x87, CHR 0xD0, CHR 0xB0] @ '' current_date '' @ [CHR 0xD0, CHR 0xBD, CHR 0xD0,
     CHR 0xB5, CHR 0xD1, CHR 0x82, CHR 0x20, CHR 0xD0, CHR 0xB2, CHR 0x20, CHR 0xD1, CHR 0x81,
     CHR 0xD0, CHR 0xBB, CHR 0xD0, CHR 0xBE, CHR 0xD0, CHR 0xB2, CHR 0xD0, CHR 0xB0, CHR 0xD1,
     CHR 0x80, CHR 0xD0, CHR 0xB5, CHR 0x28, CHR 0xD0, CHR 0xBF, CHR 0xD1, CHR 0x80, CHR 0xD0,
     CHR 0xB8, CHR 0xD1, CHR 0x88, CHR 0xD0, CHR 0xBB, CHR 0xD0, CHR 0xB8, CHR 0x20, CHR 0xD0,
     CHR 0xBA, CHR 0xD0, CHR 0xBB, CHR 0xD1, CHR 0x8E, CHR 0xD1, CHR 0x87, CHR 0xD0, CHR 0xB8,
     CHR 0x20]"

text \<open>t_not_list: \<^verbatim>\<open>The request to the server came not as a list(received \<close>\<close>

definition t_not_list :: string where
  "t_not_list = [CHR 0xD0, CHR 0x97, CHR 0xD0, CHR 0xB0, CHR 0xD0, CHR 0xBF, CHR 0xD1, CHR 0x80,
     CHR 0xD0, CHR 0xBE, CHR 0xD1, CHR 0x81, CHR 0x20, CHR 0xD0, CHR 0xBA, CHR 0x20, CHR 0xD1,
     CHR 0x81, CHR 0xD0, CHR 0xB5, CHR 0xD1, CHR 0x80, CHR 0xD0, CHR 0xB2, CHR 0xD0, CHR 0xB5,
     CHR 0xD1, CHR 0x80, CHR 0xD1, CHR 0x83, CHR 0x20, CHR 0xD0, CHR 0xBF, CHR 0xD1, CHR 0x80,
     CHR 0xD0, CHR 0xB8, CHR 0xD1, CHR 0x88, CHR 0xD1, CHR 0x91, CHR 0xD0, CHR 0xBB, CHR 0x20,
     CHR 0xD0, CHR 0xBD, CHR 0xD0, CHR 0xB5, CHR 0x20, CHR 0xD0, CHR 0xB2, CHR 0x20, CHR 0xD0,
     CHR 0xB2, CHR 0xD0, CHR 0xB8, CHR 0xD0, CHR 0xB4, CHR 0xD0, CHR 0xB5, CHR 0x20, CHR 0xD1,
     CHR 0x81, CHR 0xD0, CHR 0xBF, CHR 0xD0, CHR 0xB8, CHR 0xD1, CHR 0x81, CHR 0xD0, CHR 0xBA,
     CHR 0xD0, CHR 0xB0, CHR 0x28, CHR 0xD0, CHR 0xBF, CHR 0xD0, CHR 0xBE, CHR 0xD0, CHR 0xBB,
     CHR 0xD1, CHR 0x83, CHR 0xD1, CHR 0x87, CHR 0xD0, CHR 0xB5, CHR 0xD0, CHR 0xBD, CHR 0x20]"

text \<open>t_extracting: \<^verbatim>\<open>Extracting the information about the homework and getting its status.\<close>\<close>

definition t_extracting :: string where
  "t_extracting = [CHR 0xD0, CHR 0x98, CHR 0xD0, CHR 0xB7, CHR 0xD0, CHR 0xB2, CHR 0xD0,
     CHR 0xBB, CHR 0xD0, CHR 0xB5, CHR 0xD0, CHR 0xBA, CHR 0xD0, CHR 0xB0, CHR 0xD0, CHR 0xB5,
     CHR 0xD0, CHR 0xBC, CHR 0x20, CHR 0xD0, CHR 0xB8, CHR 0xD0, CHR 0xBD, CHR 0xD1, CHR 0x84,
     CHR 0xD0, CHR 0xBE, CHR 0xD1, CHR 0x80, CHR 0xD0, CHR 0xBC, CHR 0xD0, CHR 0xB0, CHR 0xD1,
     CHR 0x86, CHR 0xD0, CHR 0xB8, CHR 0xD1, CHR 0x8E, CHR 0x20, CHR 0xD0, CHR 0xBE, CHR 0x20,
     CHR 0xD0, CHR 0xB4, CHR 0xD0, CHR 0xBE, CHR 0xD0, CHR 0xBC, CHR 0xD0, CHR 0xB0, CHR 0xD1,
     CHR 0x88, CHR 0xD0, CHR 0xBD, CHR 0xD0, CHR 0xB5, CHR 0xD0, CHR 0xB9, CHR 0x20, CHR 0xD1,
     CHR 0x80, CHR 0xD0, CHR 0xB0, CHR 0xD0, CHR 0xB1, CHR 0xD0, CHR 0xBE, CHR 0xD1, CHR 0x82,
     CHR 0xD0, CHR 0xB5, CHR 0x20, CHR 0xD0, CHR 0xB8, CHR 0x20, CHR 0xD0, CHR 0xBF, CHR 0xD0,
     CHR 0xBE, CHR 0xD0, CHR 0xBB, CHR 0xD1, CHR 0x83, CHR 0xD1, CHR 0x87, CHR 0xD0, CHR 0xB0,
     CHR 0xD0, CHR 0xB5, CHR 0xD0, CHR 0xBC, CHR 0x20, CHR 0xD0, CHR 0xB5, CHR 0xD0, CHR 0xB5,
     CHR 0x20, CHR 0xD1, CHR 0x81, CHR 0xD1, CHR 0x82, CHR 0xD0, CHR 0xB0, CHR 0xD1, CHR 0x82,
     CHR 0xD1, CHR 0x83, CHR 0xD1, CHR 0x81, CHR 0x2E]"

text \<open>t_no_name: \<^verbatim>\<open>Key homework_name not found in the dictionary(keys present: \<close>\<close>

definition t_no_name :: string where
  "t_no_name = [CHR 0xD0, CHR 0x9A, CHR 0xD0, CHR 0xBB, CHR 0xD1, CHR 0x8E, CHR 0xD1, CHR 0x87]
     @ '' homework_name '' @ [CHR 0xD0, CHR 0xBD, CHR 0xD0, CHR 0xB5, CHR 0x20, CHR 0xD0,
     CHR 0xBE, CHR 0xD0, CHR 0xB1, CHR 0xD0, CHR 0xBD, CHR 0xD0, CHR 0xB0, CHR 0xD1, CHR 0x80,
     CHR 0xD1, CHR 0x83, CHR 0xD0, CHR 0xB6, CHR 0xD0, CHR 0xB5, CHR 0xD0, CHR 0xBD, CHR 0x20,
     CHR 0xD0, CHR 0xB2, CHR 0x20, CHR 0xD1, CHR 0x81, CHR 0xD0, CHR 0xBB, CHR 0xD0, CHR 0xBE,
     CHR 0xD0, CHR 0xB2, CHR 0xD0, CHR 0xB0, CHR 0xD1, CHR 0x80, CHR 0xD0, CHR 0xB5, CHR 0x28,
     CHR 0xD0, CHR 0xBF, CHR 0xD1, CHR 0x80, CHR 0xD0, CHR 0xB8, CHR 0xD1, CHR 0x81, CHR 0xD1,
     CHR 0x83, CHR 0xD1, CHR 0x82, CHR 0xD1, CHR 0x81, CHR 0xD1, CHR 0x82, CHR 0xD0, CHR 0xB2,
     CHR 0xD1, CHR 0x83, CHR 0xD1, CHR 0x8E, CHR 0xD1, CHR 0x82, CHR 0x20, CHR 0xD0, CHR 0xBA,
     CHR 0xD0, CHR 0xBB, CHR 0xD1, CHR 0x8E, CHR 0xD1, CHR 0x87, CHR 0xD0, CHR 0xB8, CHR 0x20]"

text \<open>t_no_status: \<^verbatim>\<open>Key status not found in the dictionary(keys present: \<close>\<close>

definition t_no_status :: string where
  "t_no_status = [CHR 0xD0, CHR 0x9A, CHR 0xD0, CHR 0xBB, CHR 0xD1, CHR 0x8E, CHR 0xD1,
     CHR 0x87] @ '' status '' @ [CHR 0xD0, CHR 0xBD, CHR 0xD0, CHR 0xB5, CHR 0x20, CHR 0xD0,
     CHR 0xBE, CHR 0xD0, CHR 0xB1, CHR 0xD0, CHR 0xBD, CHR 0xD0, CHR 0xB0, CHR 0xD1, CHR 0x80,
     CHR 0xD1, CHR 0x83, CHR 0xD0, CHR 0xB6, CHR 0xD0, CHR 0xB5, CHR 0xD0, CHR 0xBD, CHR 0x20,
     CHR 0xD0, CHR 0xB2, CHR 0x20, CHR 0xD1, CHR 0x81, CHR 0xD0, CHR 0xBB, CHR 0xD0, CHR 0xBE,
     CHR 0xD0, CHR 0xB2, CHR 0xD0, CHR 0xB0, CHR 0xD1, CHR 0x80, CHR 0xD0, CHR 0xB5, CHR 0x28,
     CHR 0xD0, CHR 0xBF, CHR 0xD1, CHR 0x80, CHR 0xD0, CHR 0xB8, CHR 0xD1, CHR 0x81, CHR 0xD1,
     CHR 0x83, CHR 0xD1, CHR 0x82, CHR 0xD1, CHR 0x81, CHR 0xD1, CHR 0x82, CHR 0xD0, CHR 0xB2,
     CHR 0xD1, CHR 0x83, CHR 0xD1, CHR 0x8E, CHR 0xD1, CHR 0x82, CHR 0x20, CHR 0xD0, CHR 0xBA,
     CHR 0xD0, CHR 0xBB, CHR 0xD1, CHR 0x8E, CHR 0xD1, CHR 0x87, CHR 0xD0, CHR 0xB8, CHR 0x20]"

text \<open>t_status_not_received: \<^verbatim>\<open>The homework status was not received.\<close>\<close>

definition t_status_not_received :: string where
  "t_status_not_received = [CHR 0xD0, CHR 0xA1, CHR 0xD1, CHR 0x82, CHR 0xD0, CHR 0xB0,
     CHR 0xD1, CHR 0x82, CHR 0xD1, CHR 0x83, CHR 0xD1, CHR 0x81, CHR 0x20, CHR 0xD0, CHR 0xB4,
     CHR 0xD0, CHR 0xBE, CHR 0xD0, CHR 0xBC, CHR 0xD0, CHR 0xB0, CHR 0xD1, CHR 0x88, CHR 0xD0,
     CHR 0xBD, CHR 0xD0, CHR 0xB5, CHR 0xD0, CHR 0xB9, CHR 0x20, CHR 0xD1, CHR 0x80, CHR 0xD0,
     CHR 0xB0, CHR 0xD0, CHR 0xB1, CHR 0xD0, CHR 0xBE, CHR 0xD1, CHR 0x82, CHR 0xD1, CHR 0x8B,
     CHR 0x20, CHR 0xD0, CHR 0xBD, CHR 0xD0, CHR 0xB5, CHR 0x20, CHR 0xD0, CHR 0xB1, CHR 0xD1,
     CHR 0x8B, CHR 0xD0, CHR 0xBB, CHR 0x20, CHR 0xD0, CHR 0xBF, CHR 0xD0, CHR 0xBE, CHR 0xD0,
     CHR 0xBB, CHR 0xD1, CHR 0x83, CHR 0xD1, CHR 0x87, CHR 0xD0, CHR 0xB5, CHR 0xD0, CHR 0xBD,
     CHR 0x2E]"

text \<open>t_status_unexpected: \<^verbatim>\<open>The status was not found in the list of expected ones.\<close>\<close>

definition t_status_unexpected :: string where
  "t_status_unexpected = [CHR 0xD0, CHR 0xA1, CHR 0xD1, CHR 0x82, CHR 0xD0, CHR 0xB0, CHR 0xD1,
     CHR 0x82, CHR 0xD1, CHR 0x83, CHR 0xD1, CHR 0x81, CHR 0x20, CHR 0xD0, CHR 0xBD, CHR 0xD0,
     CHR 0xB5, CHR 0x20, CHR 0xD0, CHR 0xBE, CHR 0xD0, CHR 0xB1, CHR 0xD0, CHR 0xBD, CHR 0xD0,
     CHR 0xB0, CHR 0xD1, CHR 0x80, CHR 0xD1, CHR 0x83, CHR 0xD0, CHR 0xB6, CHR 0xD0, CHR 0xB5,
     CHR 0xD0, CHR 0xBD, CHR 0x20, CHR 0xD0, CHR 0xB2, CHR 0x20, CHR 0xD1, CHR 0x81, CHR 0xD0,
     CHR 0xBF, CHR 0xD0, CHR 0xB8, CHR 0xD1, CHR 0x81, CHR 0xD0, CHR 0xBA, CHR 0xD0, CHR 0xB5,
     CHR 0x20, CHR 0xD0, CHR 0xBE, CHR 0xD0, CHR 0xB6, CHR 0xD0, CHR 0xB8, CHR 0xD0, CHR 0xB4,
     CHR 0xD0, CHR 0xB0, CHR 0xD0, CHR 0xB5, CHR 0xD0, CHR 0xBC, CHR 0xD1, CHR 0x8B, CHR 0xD1,
     CHR 0x85, CHR 0x2E]"

text \<open>t_changed: \<^verbatim>\<open>The review status of the work changed "\<close>\<close>

definition t_changed :: string where
  "t_changed = [CHR 0xD0, CHR 0x98, CHR 0xD0, CHR 0xB7, CHR 0xD0, CHR 0xBC, CHR 0xD0, CHR 0xB5,
     CHR 0xD0, CHR 0xBD, CHR 0xD0, CHR 0xB8, CHR 0xD0, CHR 0xBB, CHR 0xD1, CHR 0x81, CHR 0xD1,
     CHR 0x8F, CHR 0x20, CHR 0xD1, CHR 0x81, CHR 0xD1, CHR 0x82, CHR 0xD0, CHR 0xB0, CHR 0xD1,
     CHR 0x82, CHR 0xD1, CHR 0x83, CHR 0xD1, CHR 0x81, CHR 0x20, CHR 0xD0, CHR 0xBF, CHR 0xD1,
     CHR 0x80, CHR 0xD0, CHR 0xBE, CHR 0xD0, CHR 0xB2, CHR 0xD0, CHR 0xB5, CHR 0xD1, CHR 0x80,
     CHR 0xD0, CHR 0xBA, CHR 0xD0, CHR 0xB8, CHR 0x20, CHR 0xD1, CHR 0x80, CHR 0xD0, CHR 0xB0,
     CHR 0xD0, CHR 0xB1, CHR 0xD0, CHR 0xBE, CHR 0xD1, CHR 0x82, CHR 0xD1, CHR 0x8B, CHR 0x20,
     CHR 0x22]"

text \<open>t_checking_tokens: \<^verbatim>\<open>Checking that the environment variables are available.\<close>\<close>

definition t_checking_tokens :: string where
  "t_checking_tokens = [CHR 0xD0, CHR 0x9F, CHR 0xD1, CHR 0x80, CHR 0xD0, CHR 0xBE, CHR 0xD0,
     CHR 0xB2, CHR 0xD0, CHR 0xB5, CHR 0xD1, CHR 0x80, CHR 0xD1, CHR 0x8F, CHR 0xD0, CHR 0xB5,
     CHR 0xD0, CHR 0xBC, CHR 0x20, CHR 0xD0, CHR 0xB4, CHR 0xD0, CHR 0xBE, CHR 0xD1, CHR 0x81,
     CHR 0xD1, CHR 0x82, CHR 0xD1, CHR 0x83, CHR 0xD0, CHR 0xBF, CHR 0xD0, CHR 0xBD, CHR 0xD0,
     CHR 0xBE, CHR 0xD1, CHR 0x81, CHR 0xD1, CHR 0x82, CHR 0xD1, CHR 0x8C, CHR 0x20, CHR 0xD0,
     CHR 0xBF, CHR 0xD0, CHR 0xB5, CHR 0xD1, CHR 0x80, CHR 0xD0, CHR 0xB5, CHR 0xD0, CHR 0xBC,
     CHR 0xD0, CHR 0xB5, CHR 0xD0, CHR 0xBD, CHR 0xD0, CHR 0xBD, CHR 0xD1, CHR 0x8B, CHR 0xD1,
     CHR 0x85, CHR 0x20, CHR 0xD0, CHR 0xBE, CHR 0xD0, CHR 0xBA, CHR 0xD1, CHR 0x80, CHR 0xD1,
     CHR 0x83, CHR 0xD0, CHR 0xB6, CHR 0xD0, CHR 0xB5, CHR 0xD0, CHR 0xBD, CHR 0xD0, CHR 0xB8,
     CHR 0xD1, CHR 0x8F, CHR 0x2E]"

text \<open>t_tokens_missing: \<^verbatim>\<open>Tokens are not available\<close>\<close>

definition t_tokens_missing :: string where
  "t_tokens_missing = [CHR 0xD0, CHR 0xA2, CHR 0xD0, CHR 0xBE, CHR 0xD0, CHR 0xBA, CHR 0xD0,
     CHR 0xB5, CHR 0xD0, CHR 0xBD, CHR 0xD1, CHR 0x8B, CHR 0x20, CHR 0xD0, CHR 0xBD, CHR 0xD0,
     CHR 0xB5, CHR 0x20, CHR 0xD0, CHR 0xB4, CHR 0xD0, CHR 0xBE, CHR 0xD1, CHR 0x81, CHR 0xD1,
     CHR 0x82, CHR 0xD1, CHR 0x83, CHR 0xD0, CHR 0xBF, CHR 0xD0, CHR 0xBD, CHR 0xD1, CHR 0x8B]"

text \<open>t_nothing_works: \<^verbatim>\<open>Nothing works, tokens are not available\<close>\<close>

definition t_nothing_works :: string where
  "t_nothing_works = [CHR 0xD0, CHR 0x9D, CHR 0xD0, CHR 0xB8, CHR 0xD1, CHR 0x87, CHR 0xD0,
     CHR 0xB5, CHR 0xD0, CHR 0xB3, CHR 0xD0, CHR 0xBE, CHR 0x20, CHR 0xD0, CHR 0xBD, CHR 0xD0,
     CHR 0xB5, CHR 0x20, CHR 0xD1, CHR 0x80, CHR 0xD0, CHR 0xB0, CHR 0xD0, CHR 0xB1, CHR 0xD0,
     CHR 0xBE, CHR 0xD1, CHR 0x82, CHR 0xD0, CHR 0xB0, CHR 0xD0, CHR 0xB5, CHR 0xD1, CHR 0x82,
     CHR 0x2C, CHR 0x20, CHR 0xD1, CHR 0x82, CHR 0xD0, CHR 0xBE, CHR 0xD0, CHR 0xBA, CHR 0xD0,
     CHR 0xB5, CHR 0xD0, CHR 0xBD, CHR 0xD1, CHR 0x8B, CHR 0x20, CHR 0xD0, CHR 0xBD, CHR 0xD0,
     CHR 0xB5, CHR 0x20, CHR 0xD0, CHR 0xB4, CHR 0xD0, CHR 0xBE, CHR 0xD1, CHR 0x81, CHR 0xD1,
     CHR 0x82, CHR 0xD1, CHR 0x83, CHR 0xD0, CHR 0xBF, CHR 0xD0, CHR 0xBD, CHR 0xD1, CHR 0x8B]"

text \<open>t_got_list: \<^verbatim>\<open>List of works received \<close>\<close>

definition t_got_list :: string where
  "t_got_list = [CHR 0xD0, CHR 0x9F, CHR 0xD0, CHR 0xBE, CHR 0xD0, CHR 0xBB, CHR 0xD1, CHR 0x83,
     CHR 0xD1, CHR 0x87, CHR 0xD0, CHR 0xB5, CHR 0xD0, CHR 0xBD, CHR 0x20, CHR 0xD1, CHR 0x81,
     CHR 0xD0, CHR 0xBF, CHR 0xD0, CHR 0xB8, CHR 0xD1, CHR 0x81, CHR 0xD0, CHR 0xBE, CHR 0xD0,
     CHR 0xBA, CHR 0x20, CHR 0xD1, CHR 0x80, CHR 0xD0, CHR 0xB0, CHR 0xD0, CHR 0xB1, CHR 0xD0,
     CHR 0xBE, CHR 0xD1, CHR 0x82, CHR 0x20]"

text \<open>t_no_new: \<^verbatim>\<open>No new statuses\<close>\<close>

definition t_no_new :: string where
  "t_no_new = [CHR 0xD0, CHR 0x9D, CHR 0xD0, CHR 0xB5, CHR 0xD1, CHR 0x82, CHR 0x20, CHR 0xD0,
     CHR 0xBD, CHR 0xD0, CHR 0xBE, CHR 0xD0, CHR 0xB2, CHR 0xD1, CHR 0x8B, CHR 0xD1, CHR 0x85,
     CHR 0x20, CHR 0xD1, CHR 0x81, CHR 0xD1, CHR 0x82, CHR 0xD0, CHR 0xB0, CHR 0xD1, CHR 0x82,
     CHR 0xD1, CHR 0x83, CHR 0xD1, CHR 0x81, CHR 0xD0, CHR 0xBE, CHR 0xD0, CHR 0xB2]"

section \<open>Effects and results\<close>

text \<open>
  What a run of the program does to the outside is a trace of events: a record handed
  to the root logger (\<^verbatim>\<open>basicConfig\<close> sets level \<^verbatim>\<open>DEBUG\<close>, so every record is kept),
  a \<^verbatim>\<open>requests.get\<close> carrying the \<^verbatim>\<open>from_date\<close> parameter, a call of
  \<^verbatim>\<open>bot.send_message\<close> with its text, and \<^verbatim>\<open>time.sleep\<close> with its seconds.
  A computation yields its trace and either the exception it raised (\<open>Inl\<close>) or its
  value (\<open>Inr\<close>).
\<close>

datatype level = DEBUG | INFO | ERROR | CRITICAL

datatype event =
    Log level string
  | HttpGet json
  | BotSend string
  | Sleep nat

type_synonym 'a run = "event list \<times> (exn + 'a)"

definition return :: "'a \<Rightarrow> 'a run" where
  "return x = ([], Inr x)"

definition raise :: "exn \<Rightarrow> 'a run" where
  "raise e = ([], Inl e)"

definition logging :: "level \<Rightarrow> string \<Rightarrow> unit run" where
  "logging lvl msg = ([Log lvl msg], Inr ())"

text \<open>Statement sequencing: the second statement runs only if the first did not raise.\<close>

definition and_then :: "'a run \<Rightarrow> ('a \<Rightarrow> 'b run) \<Rightarrow> 'b run" where
  "and_then m f =
     (case m of
        (es, Inl e) \<Rightarrow> (es, Inl e)
      | (es, Inr x) \<Rightarrow> (case f x of (es', r) \<Rightarrow> (es @ es', r)))"

section \<open>Configuration\<close>

text \<open>
  The three \<^verbatim>\<open>os.getenv\<close> results (\<^verbatim>\<open>None\<close> when the variable is unset) and the
  module constants.
\<close>

record config =
  PRACTICUM_TOKEN :: "string option"
  TELEGRAM_TOKEN :: "string option"
  TELEGRAM_CHAT_ID :: "string option"

definition str_opt :: "string option \<Rightarrow> string" where
  "str_opt v = (case v of None \<Rightarrow> ''None'' | Some s \<Rightarrow> s)"

definition RETRY_PERIOD :: nat where
  "RETRY_PERIOD = 600"

definition ENDPOINT :: string where
  "ENDPOINT = ''https://practicum.yandex.ru/api/user_api/homework_statuses/''"

definition HEADERS :: "config \<Rightarrow> json" where
  "HEADERS cfg = JDict [(''Authorization'', JStr (''OAuth '' @ str_opt (PRACTICUM_TOKEN cfg)))]"

definition HOMEWORK_VERDICTS :: "string \<rightharpoonup> string" where
  "HOMEWORK_VERDICTS =
     map_of [(''approved'', verdict_approved),
             (''reviewing'', verdict_reviewing),
             (''rejected'', verdict_rejected)]"

section \<open>The operations of \<^verbatim>\<open>homework.py\<close>\<close>

subsection \<open>\<^verbatim>\<open>send_message\<close>\<close>

text \<open>
  The outcome of \<^verbatim>\<open>bot.send_message\<close> is the environment's: it returns, or it raises a
  \<^verbatim>\<open>TelegramError\<close> with some text.
\<close>

datatype bot_outcome = Delivered | TelegramError string

definition send_message :: "config \<Rightarrow> bot_outcome \<Rightarrow> string \<Rightarrow> unit run" where
  "send_message cfg sent message =
     and_then
       (logging INFO
          (t_sending @ message @ t_to_chat @ str_opt (TELEGRAM_CHAT_ID cfg) @ ''.''))
       (\<lambda>_. case sent of
          TelegramError error \<Rightarrow>
            (let message' =
               t_send_failed @ error @ t_sending_to @ str_opt (TELEGRAM_CHAT_ID cfg)
                 @ t_text @ message @ '').''
             in ([BotSend message, Log ERROR message'],
                 Inl (Exn MessageNotSentError message')))
        | Delivered \<Rightarrow>
            ([BotSend message, Log DEBUG (t_message @ message @ t_sent)], Inr ()))"

subsection \<open>\<^verbatim>\<open>get_api_answer\<close>\<close>

text \<open>
  The outcome of \<^verbatim>\<open>requests.get\<close> and of \<^verbatim>\<open>.json()\<close> is the environment's. The request
  raises, or a response arrives with a status code and a body on which \<^verbatim>\<open>.json()\<close>
  raises (\<open>Inl\<close>) or returns the parsed value (\<open>Inr\<close>). What matters of an exception
  is the \<^verbatim>\<open>except\<close> clause that takes it:
  \<^item> a \<^verbatim>\<open>json.JSONDecodeError\<close> goes to the first clause. The error that \<^verbatim>\<open>.json()\<close>
    raises on a malformed body is one, unless \<^verbatim>\<open>simplejson\<close> is importable;
  \<^item> a \<^verbatim>\<open>RequestException\<close> that is no \<^verbatim>\<open>json.JSONDecodeError\<close> goes to the second
    clause. \<^verbatim>\<open>requests.get\<close> raises these, and so does \<^verbatim>\<open>.json()\<close> on a malformed body
    when \<^verbatim>\<open>simplejson\<close> is importable;
  \<^item> any other exception matches no clause and goes to the caller as it is. The decoder
    raises a \<^verbatim>\<open>RecursionError\<close> on a body nested too deeply and a \<^verbatim>\<open>ValueError\<close> on an
    integer literal beyond the interpreter's digit limit.
  A \<^verbatim>\<open>WrongStatusCodeError\<close> raised inside the \<^verbatim>\<open>try\<close> matches neither clause and goes
  to the caller. \<^verbatim>\<open>HTTPStatus.OK\<close> formats as \<^verbatim>\<open>200\<close>.
\<close>

datatype other_exception =
    OtherRecursionError string
  | OtherValueError string

fun as_exn :: "other_exception \<Rightarrow> exn" where
  "as_exn (OtherRecursionError m) = Exn RecursionError m"
| "as_exn (OtherValueError m) = Exn ValueError m"

datatype json_error =
    JSONDecodeError string
  | RequestsJSONDecodeError string
  | DecoderRaises other_exception

datatype http_outcome =
    RequestException string
  | RequestRaises other_exception
  | Response int "json_error + json"

definition get_api_answer :: "builtins \<Rightarrow> config \<Rightarrow> http_outcome \<Rightarrow> json \<Rightarrow> json run" where
  "get_api_answer bi cfg net timestamp =
     (let params = JDict [(''from_date'', timestamp)] in
      and_then
        (logging INFO (t_requesting @ py_str bi params @ ''.''))
        (\<lambda>_. case net of
           RequestException e \<Rightarrow>
             ([HttpGet timestamp],
              Inl (Exn ConnectionError
                (t_connection @ e @ t_paren_request_url @ ENDPOINT @ t_headers
                   @ py_str bi (HEADERS cfg) @ t_params @ py_str bi params @ '').'')))
         | RequestRaises other \<Rightarrow> ([HttpGet timestamp], Inl (as_exn other))
         | Response status_code body \<Rightarrow>
             if status_code \<noteq> 200 then
               ([HttpGet timestamp],
                Inl (Exn WrongStatusCodeError
                  (t_unexpected @ str_int 200 @ t_received @ str_int status_code
                     @ t_request_url @ ENDPOINT @ t_headers @ py_str bi (HEADERS cfg)
                     @ t_params_glued @ py_str bi params @ '').'')))
             else
               (case body of
                  Inr parsed \<Rightarrow> ([HttpGet timestamp], Inr parsed)
                | Inl (JSONDecodeError e) \<Rightarrow>
                    ([HttpGet timestamp],
                     Inl (Exn GeneralError
                       (t_no_json @ e @ t_paren_request_url @ ENDPOINT @ t_headers
                          @ py_str bi (HEADERS cfg) @ t_params @ py_str bi params @ '').'')))
                | Inl (RequestsJSONDecodeError e) \<Rightarrow>
                    ([HttpGet timestamp],
                     Inl (Exn ConnectionError
                       (t_connection @ e @ t_paren_request_url @ ENDPOINT @ t_headers
                          @ py_str bi (HEADERS cfg) @ t_params @ py_str bi params @ '').'')))
                | Inl (DecoderRaises other) \<Rightarrow> ([HttpGet timestamp], Inl (as_exn other)))))"

subsection \<open>\<^verbatim>\<open>check_response\<close>\<close>

definition check_response :: "builtins \<Rightarrow> json \<Rightarrow> (json list) run" where
  "check_response bi response =
     and_then (logging INFO t_checking)
       (\<lambda>_. case response of
          JDict d \<Rightarrow>
            if \<not> has_key d ''homeworks'' then
              raise (Exn KeyError (t_no_homeworks @ str_keys bi d @ '').''))
            else if \<not> has_key d ''current_date'' then
              raise (Exn KeyError (t_no_current_date @ str_keys bi d @ '').''))
            else
              (case dict_get d ''homeworks'' of
                 JList homeworks \<Rightarrow> return homeworks
               | other \<Rightarrow> raise (Exn TypeError (t_not_list @ str_type other @ t_instead)))
        | other \<Rightarrow> raise (Exn TypeError (t_not_dict @ str_type other @ t_instead)))"

subsection \<open>\<^verbatim>\<open>parse_status\<close>\<close>

text \<open>
  \<^verbatim>\<open>main\<close> passes \<^verbatim>\<open>homeworks[0]\<close>, any parsed value. On a dict the function is as
  written. On a \<^verbatim>\<open>str\<close>, \<^verbatim>\<open>in\<close> is a substring test and on a \<^verbatim>\<open>list\<close> a membership
  test; when it fails, building the message calls \<^verbatim>\<open>.keys()\<close>, an
  \<^verbatim>\<open>AttributeError\<close>, and when it succeeds, indexing by a \<^verbatim>\<open>str\<close> is a
  \<^verbatim>\<open>TypeError\<close>. On the other types \<^verbatim>\<open>in\<close> itself is a \<^verbatim>\<open>TypeError\<close>.
  \<^verbatim>\<open>homework_status not in HOMEWORK_VERDICTS\<close> hashes the status: a \<^verbatim>\<open>list\<close> or a
  \<^verbatim>\<open>dict\<close> is unhashable, a \<^verbatim>\<open>TypeError\<close>; any other value that is not a \<^verbatim>\<open>str\<close>
  is no key of the table.
\<close>

definition verdict_lookup :: "builtins \<Rightarrow> json \<Rightarrow> exn + string option" where
  "verdict_lookup bi homework_status =
     (case homework_status of
        JStr s \<Rightarrow> Inr (HOMEWORK_VERDICTS s)
      | JList xs \<Rightarrow> Inl (Exn TypeError (interp_msg bi TypeError homework_status))
      | JDict kvs \<Rightarrow> Inl (Exn TypeError (interp_msg bi TypeError homework_status))
      | _ \<Rightarrow> Inr None)"

definition parse_status :: "builtins \<Rightarrow> json \<Rightarrow> string run" where
  "parse_status bi homeworks =
     and_then (logging INFO t_extracting)
       (\<lambda>_. case homeworks of
          JDict d \<Rightarrow>
            if \<not> has_key d ''homework_name'' then
              raise (Exn KeyError (t_no_name @ str_keys bi d @ '').''))
            else
              (let homework_name = dict_get d ''homework_name'' in
               if \<not> has_key d ''status'' then
                 raise (Exn KeyError (t_no_status @ str_keys bi d @ '').''))
               else
                 (let homework_status = dict_get d ''status'' in
                  if homework_status = JNull then
                    raise (Exn CommonError t_status_not_received)
                  else
                    (case verdict_lookup bi homework_status of
                       Inl e \<Rightarrow> raise e
                     | Inr None \<Rightarrow> raise (Exn CommonError t_status_unexpected)
                     | Inr (Some verdict) \<Rightarrow>
                         return (t_changed @ py_str bi homework_name @ [CHR 0x22] @ ''. ''
                                   @ verdict))))
        | JStr s \<Rightarrow>
            if sublist ''homework_name'' s
            then raise (Exn TypeError (interp_msg bi TypeError homeworks))
            else raise (Exn AttributeError (interp_msg bi AttributeError homeworks))
        | JList xs \<Rightarrow>
            if JStr ''homework_name'' \<in> set xs
            then raise (Exn TypeError (interp_msg bi TypeError homeworks))
            else raise (Exn AttributeError (interp_msg bi AttributeError homeworks))
        | other \<Rightarrow> raise (Exn TypeError (interp_msg bi TypeError homeworks)))"

subsection \<open>\<^verbatim>\<open>check_tokens\<close>\<close>

definition truthy :: "string option \<Rightarrow> bool" where
  "truthy v = (case v of None \<Rightarrow> False | Some s \<Rightarrow> s \<noteq> [])"

definition check_tokens :: "config \<Rightarrow> bool run" where
  "check_tokens cfg =
     and_then (logging INFO t_checking_tokens)
       (\<lambda>_. return (truthy (PRACTICUM_TOKEN cfg) \<and> truthy (TELEGRAM_TOKEN cfg)
                      \<and> truthy (TELEGRAM_CHAT_ID cfg)))"

subsection \<open>\<^verbatim>\<open>main\<close>\<close>

text \<open>
  \<^verbatim>\<open>try: ... except ...\<close>: the handler runs on the exception the body raised, and what
  the handler raises leaves the statement: the clauses of one \<^verbatim>\<open>try\<close> guard its body
  only, not each other. \<^verbatim>\<open>finally\<close>: the closing block runs in every case, and an
  exception still pending goes on afterwards.
\<close>

definition try_except :: "'a run \<Rightarrow> (exn \<Rightarrow> 'a run) \<Rightarrow> 'a run" where
  "try_except body handler =
     (case body of
        (es, Inr x) \<Rightarrow> (es, Inr x)
      | (es, Inl e) \<Rightarrow> (case handler e of (es', r) \<Rightarrow> (es @ es', r)))"

definition try_finally :: "'a run \<Rightarrow> unit run \<Rightarrow> 'a run" where
  "try_finally body closing =
     (case body of
        (es, r) \<Rightarrow>
          (case closing of
             (es', Inl e) \<Rightarrow> (es @ es', Inl e)
           | (es', Inr _) \<Rightarrow> (es @ es', r)))"

definition sleep :: "nat \<Rightarrow> unit run" where
  "sleep seconds = ([Sleep seconds], Inr ())"

text \<open>\<^verbatim>\<open>response.get('current_date')\<close>; only a dict has \<^verbatim>\<open>get\<close>.\<close>

definition response_get :: "builtins \<Rightarrow> json \<Rightarrow> string \<Rightarrow> json run" where
  "response_get bi response k =
     (case response of
        JDict d \<Rightarrow> return (dict_get d k)
      | other \<Rightarrow> raise (Exn AttributeError (interp_msg bi AttributeError other)))"

text \<open>
  What the environment does during one pass of the loop: the outcome of the request,
  of \<^verbatim>\<open>bot.send_message\<close> when the \<^verbatim>\<open>try\<close> block calls it, and of
  \<^verbatim>\<open>bot.send_message\<close> when the \<^verbatim>\<open>except GeneralError\<close> clause calls it.
\<close>

record cycle_env =
  net :: http_outcome
  bot_try :: bot_outcome
  bot_except :: bot_outcome

text \<open>The body of the \<^verbatim>\<open>try\<close> block; its value is the new \<^verbatim>\<open>timestamp\<close>.\<close>

definition try_block :: "builtins \<Rightarrow> config \<Rightarrow> cycle_env \<Rightarrow> json \<Rightarrow> json run" where
  "try_block bi cfg env timestamp =
     and_then (get_api_answer bi cfg (net env) timestamp) (\<lambda>response.
     and_then (check_response bi response) (\<lambda>homeworks.
     and_then (logging INFO (t_got_list @ py_str bi response)) (\<lambda>_.
     and_then
       (case homeworks of
          first # _ \<Rightarrow>
            and_then (parse_status bi first) (send_message cfg (bot_try env))
        | [] \<Rightarrow>
            and_then (logging DEBUG t_no_new) (\<lambda>_. send_message cfg (bot_try env) t_no_new))
       (\<lambda>_. response_get bi response ''current_date''))))"

text \<open>
  The two \<^verbatim>\<open>except\<close> clauses, in the source's order; its value is the \<^verbatim>\<open>timestamp\<close>
  the loop goes on with, the old one. An exception that is no \<^verbatim>\<open>Exception\<close> matches
  neither clause.
\<close>

definition except_clauses :: "builtins \<Rightarrow> config \<Rightarrow> cycle_env \<Rightarrow> json \<Rightarrow> exn \<Rightarrow> json run" where
  "except_clauses bi cfg env timestamp error =
     (if is_GeneralError (exn_class_of error) then
        and_then (logging ERROR (exn_str bi error)) (\<lambda>_.
        and_then (send_message cfg (bot_except env) (exn_str bi error)) (\<lambda>_.
        return timestamp))
      else if is_Exception (exn_class_of error) then
        and_then (logging ERROR (exn_str bi error)) (\<lambda>_. return timestamp)
      else raise error)"

text \<open>One pass of \<^verbatim>\<open>while True\<close>: the whole \<^verbatim>\<open>try\<close> statement.\<close>

definition iteration :: "builtins \<Rightarrow> config \<Rightarrow> cycle_env \<Rightarrow> json \<Rightarrow> json run" where
  "iteration bi cfg env timestamp =
     try_finally
       (try_except (try_block bi cfg env timestamp) (except_clauses bi cfg env timestamp))
       (sleep RETRY_PERIOD)"

text \<open>
  The loop has no exit of its own. It is run against the environment of its first
  passes, a list: \<open>Inr timestamp\<close> says that the loop is still running after them, with
  that cursor; \<open>Inl e\<close> says that \<open>e\<close> left the loop, which ends \<^verbatim>\<open>main\<close>.
\<close>

fun main_loop :: "builtins \<Rightarrow> config \<Rightarrow> cycle_env list \<Rightarrow> json \<Rightarrow> json run" where
  "main_loop bi cfg [] timestamp = return timestamp"
| "main_loop bi cfg (env # envs) timestamp =
     and_then (iteration bi cfg env timestamp) (main_loop bi cfg envs)"

text \<open>
  \<^verbatim>\<open>main\<close>, with \<^verbatim>\<open>int(time.time())\<close> at its start as \<open>now\<close>; building
  \<^verbatim>\<open>telegram.Bot\<close> is taken to succeed.
\<close>

definition main :: "builtins \<Rightarrow> config \<Rightarrow> int \<Rightarrow> cycle_env list \<Rightarrow> json run" where
  "main bi cfg now envs =
     and_then (check_tokens cfg) (\<lambda>ok.
       if \<not> ok then
         and_then (logging CRITICAL t_tokens_missing) (\<lambda>_.
           raise (Exn SystemExit t_nothing_works))
       else main_loop bi cfg envs (JInt now))"

section \<open>Sample inputs\<close>

text \<open>
  An instance of the interpreter's functions on which the model can be evaluated:
  \<^verbatim>\<open>repr\<close> of a \<^verbatim>\<open>str\<close> as Python gives it for a string of plain characters with no
  quote or backslash, a fixed text for a \<^verbatim>\<open>float\<close>, and the type's name as the text of
  an interpreter message. A configuration with all three tokens set.
\<close>

definition plain_builtins :: builtins where
  "plain_builtins =
     \<lparr>repr_str = (\<lambda>s. [CHR 0x27] @ s @ [CHR 0x27]),
      repr_float = (\<lambda>w. ''nan''),
      interp_msg = (\<lambda>c v. type_name v)\<rparr>"

definition sample_config :: config where
  "sample_config =
     \<lparr>PRACTICUM_TOKEN = Some ''practicum'',
      TELEGRAM_TOKEN = Some ''telegram'',
      TELEGRAM_CHAT_ID = Some ''42''\<rparr>"

section \<open>Notions used in the statements\<close>

text \<open>
  A value that \<^verbatim>\<open>hash\<close> accepts: of the parsed values, all but a \<^verbatim>\<open>list\<close> and a
  \<^verbatim>\<open>dict\<close>.
\<close>

fun hashable :: "json \<Rightarrow> bool" where
  "hashable (JList xs) = False"
| "hashable (JDict kvs) = False"
| "hashable _ = True"

text \<open>The class of the exception a computation raised, if it raised one.\<close>

definition raised_class :: "'a run \<Rightarrow> exn_class option" where
  "raised_class r = (case snd r of Inl e \<Rightarrow> Some (exn_class_of e) | Inr x \<Rightarrow> None)"

text \<open>The texts handed to \<^verbatim>\<open>bot.send_message\<close> in a trace, in order.\<close>

fun sent_texts :: "event list \<Rightarrow> string list" where
  "sent_texts [] = []"
| "sent_texts (BotSend m # es) = m # sent_texts es"
| "sent_texts (_ # es) = sent_texts es"

section \<open>Basic facts\<close>

lemma snd_and_then:
  "snd (and_then m f) = (case snd m of Inl e \<Rightarrow> Inl e | Inr x \<Rightarrow> snd (f x))"
  by (cases m) (auto simp: and_then_def split: sum.splits prod.splits)

lemma fst_and_then:
  "fst (and_then m f) = (case snd m of Inl e \<Rightarrow> fst m | Inr x \<Rightarrow> fst m @ fst (f x))"
  by (cases m) (auto simp: and_then_def split: sum.splits prod.splits)

lemma verdicts_table:
  "HOMEWORK_VERDICTS ''approved'' = Some verdict_approved"
  "HOMEWORK_VERDICTS ''reviewing'' = Some verdict_reviewing"
  "HOMEWORK_VERDICTS ''rejected'' = Some verdict_rejected"
  by (simp_all add: HOMEWORK_VERDICTS_def)

lemma verdicts_dom:
  "HOMEWORK_VERDICTS code \<noteq> None \<longleftrightarrow> code \<in> {''approved'', ''reviewing'', ''rejected''}"
  by (simp add: HOMEWORK_VERDICTS_def)

section \<open>The status formatter\<close>

text \<open>
  Claim C3. For every entry that is a mapping with a \<^verbatim>\<open>homework_name\<close> key and whose
  \<^verbatim>\<open>status\<close> is one of \<^verbatim>\<open>approved\<close>, \<^verbatim>\<open>reviewing\<close>, \<^verbatim>\<open>rejected\<close>, \<^verbatim>\<open>parse_status\<close>
  returns the fixed template filled with the name and the verdict: the text the table
  \<^verbatim>\<open>HOMEWORK_VERDICTS\<close> binds to that status. The message contains the name as \<^verbatim>\<open>str\<close>
  renders it (the name itself when it is a \<^verbatim>\<open>str\<close>) and contains the verdict.
\<close>

theorem parse_status_known_status:
  assumes name: "has_key d ''homework_name''"
    and status: "map_of d ''status'' = Some (JStr code)"
    and known: "code \<in> {''approved'', ''reviewing'', ''rejected''}"
  shows "\<exists>verdict message.
           HOMEWORK_VERDICTS code = Some verdict
         \<and> message = t_changed @ py_str bi (dict_get d ''homework_name'') @ [CHR 0x22]
                       @ ''. '' @ verdict
         \<and> parse_status bi (JDict d) = ([Log INFO t_extracting], Inr message)
         \<and> sublist (py_str bi (dict_get d ''homework_name'')) message
         \<and> (\<forall>n. map_of d ''homework_name'' = Some (JStr n) \<longrightarrow> sublist n message)
         \<and> sublist verdict message"
proof -
  from known obtain verdict where v: "HOMEWORK_VERDICTS code = Some verdict"
    using verdicts_dom [of code] by blast
  define message where
    "message = t_changed @ py_str bi (dict_get d ''homework_name'') @ [CHR 0x22] @ ''. ''
                 @ verdict"
  have run: "parse_status bi (JDict d) = ([Log INFO t_extracting], Inr message)"
    using name status v
    by (simp add: parse_status_def and_then_def logging_def return_def raise_def
        verdict_lookup_def has_key_def dict_get_def message_def)
  have sub_name: "sublist (py_str bi (dict_get d ''homework_name'')) message"
    unfolding message_def by (rule sublist_appendI)
  have sub_verdict: "sublist verdict message"
    unfolding message_def sublist_def by (intro exI [of _ "[]"] exI) simp
  have "sublist n message" if "map_of d ''homework_name'' = Some (JStr n)" for n
    using sub_name that by (simp add: dict_get_def)
  with v run sub_name sub_verdict message_def show ?thesis by blast
qed

theorem parse_status_known_status_witness:
  "parse_status plain_builtins
     (JDict [(''homework_name'', JStr ''X''), (''status'', JStr ''approved'')])
   = ([Log INFO t_extracting],
      Inr (t_changed @ ''X'' @ [CHR 0x22] @ ''. '' @ verdict_approved))
   \<and> sublist ''X'' (t_changed @ ''X'' @ [CHR 0x22] @ ''. '' @ verdict_approved)
   \<and> sublist verdict_approved (t_changed @ ''X'' @ [CHR 0x22] @ ''. '' @ verdict_approved)"
  using parse_status_known_status
    [of "[(''homework_name'', JStr ''X''), (''status'', JStr ''approved'')]" "''approved''"
        plain_builtins]
  by (simp add: has_key_def dict_get_def verdicts_table)

lemma verdict_lookup_unknown:
  assumes "hashable st" and "st \<notin> JStr ` {''approved'', ''reviewing'', ''rejected''}"
  shows "verdict_lookup bi st = Inr None"
proof (cases st)
  case (JStr s)
  with assms(2) have "s \<notin> {''approved'', ''reviewing'', ''rejected''}" by blast
  then have "HOMEWORK_VERDICTS s = None" using verdicts_dom [of s] by blast
  with JStr show ?thesis by (simp add: verdict_lookup_def)
qed (use assms(1) in \<open>simp_all add: verdict_lookup_def\<close>)

text \<open>
  Claim C4 says that every entry whose status lies outside the three known codes, the
  empty string and an absent \<^verbatim>\<open>status\<close> key included, makes \<^verbatim>\<open>parse_status\<close> raise a
  \<^verbatim>\<open>CommonError\<close> and nothing else. An entry with a name and no \<^verbatim>\<open>status\<close> key raises a
  \<^verbatim>\<open>KeyError\<close>: the function tests the key before it reads the value.
\<close>

theorem parse_status_absent_status_counterexample:
  "map_of [(''homework_name'', JStr ''X'')] ''status'' = None
   \<and> snd (parse_status plain_builtins (JDict [(''homework_name'', JStr ''X'')]))
       = Inl (Exn KeyError
           (t_no_status @ str_keys plain_builtins [(''homework_name'', JStr ''X'')] @ '').''))
   \<and> KeyError \<noteq> CommonError"
  by (simp add: parse_status_def and_then_def logging_def raise_def has_key_def)

text \<open>
  Claim C4, amended. For every entry that is a mapping with a \<^verbatim>\<open>homework_name\<close> key:
  when the \<^verbatim>\<open>status\<close> key is absent \<^verbatim>\<open>parse_status\<close> raises a \<^verbatim>\<open>KeyError\<close>; when the
  status is \<^verbatim>\<open>None\<close> it raises the \<^verbatim>\<open>CommonError\<close> "status not received"; when the status
  is any other hashable value outside the three known codes (the empty string is one) it
  raises the \<^verbatim>\<open>CommonError\<close> "status not in the expected list".
\<close>

theorem parse_status_unknown_status:
  assumes name: "has_key d ''homework_name''"
  shows "(map_of d ''status'' = None \<longrightarrow>
            parse_status bi (JDict d)
              = ([Log INFO t_extracting],
                 Inl (Exn KeyError (t_no_status @ str_keys bi d @ '').''))))
       \<and> (map_of d ''status'' = Some JNull \<longrightarrow>
            parse_status bi (JDict d)
              = ([Log INFO t_extracting], Inl (Exn CommonError t_status_not_received)))
       \<and> (\<forall>st. map_of d ''status'' = Some st \<longrightarrow> st \<noteq> JNull \<longrightarrow> hashable st \<longrightarrow>
                st \<notin> JStr ` {''approved'', ''reviewing'', ''rejected''} \<longrightarrow>
            parse_status bi (JDict d)
              = ([Log INFO t_extracting], Inl (Exn CommonError t_status_unexpected)))"
proof (intro conjI allI impI)
  assume "map_of d ''status'' = None"
  with name show "parse_status bi (JDict d)
      = ([Log INFO t_extracting], Inl (Exn KeyError (t_no_status @ str_keys bi d @ '').'')))"
    by (simp add: parse_status_def and_then_def logging_def raise_def has_key_def)
next
  assume "map_of d ''status'' = Some JNull"
  with name show "parse_status bi (JDict d)
      = ([Log INFO t_extracting], Inl (Exn CommonError t_status_not_received))"
    by (simp add: parse_status_def and_then_def logging_def raise_def has_key_def dict_get_def)
next
  fix st
  assume st: "map_of d ''status'' = Some st" "st \<noteq> JNull" "hashable st"
    "st \<notin> JStr ` {''approved'', ''reviewing'', ''rejected''}"
  then have "verdict_lookup bi st = Inr None" by (simp add: verdict_lookup_unknown)
  with name st show "parse_status bi (JDict d)
      = ([Log INFO t_extracting], Inl (Exn CommonError t_status_unexpected))"
    by (simp add: parse_status_def and_then_def logging_def raise_def has_key_def dict_get_def)
qed

theorem parse_status_unknown_status_witness:
  "parse_status plain_builtins (JDict [(''homework_name'', JStr ''X'')])
     = ([Log INFO t_extracting],
        Inl (Exn KeyError
          (t_no_status @ str_keys plain_builtins [(''homework_name'', JStr ''X'')] @ '').'')))
   \<and> parse_status plain_builtins (JDict [(''homework_name'', JStr ''X''), (''status'', JNull)])
     = ([Log INFO t_extracting], Inl (Exn CommonError t_status_not_received))
   \<and> parse_status plain_builtins (JDict [(''homework_name'', JStr ''X''), (''status'', JStr '''')])
     = ([Log INFO t_extracting], Inl (Exn CommonError t_status_unexpected))"
  using parse_status_unknown_status [of "[(''homework_name'', JStr ''X'')]" plain_builtins]
    parse_status_unknown_status
      [of "[(''homework_name'', JStr ''X''), (''status'', JNull)]" plain_builtins]
    parse_status_unknown_status
      [of "[(''homework_name'', JStr ''X''), (''status'', JStr '''')]" plain_builtins]
  by (simp add: has_key_def)

section \<open>The response validator\<close>

lemma sublist_mid: "sublist x (a @ x @ b)"
  unfolding sublist_def by blast

lemma check_response_not_dict:
  assumes "\<forall>d. response \<noteq> JDict d"
  shows "check_response bi response
           = ([Log INFO t_checking],
              Inl (Exn TypeError (t_not_dict @ str_type response @ t_instead)))"
  using assms
  by (cases response) (simp_all add: check_response_def and_then_def logging_def raise_def)

lemma check_response_dict:
  "check_response bi (JDict d)
     = ([Log INFO t_checking],
        if \<not> has_key d ''homeworks'' then
          Inl (Exn KeyError (t_no_homeworks @ str_keys bi d @ '').''))
        else if \<not> has_key d ''current_date'' then
          Inl (Exn KeyError (t_no_current_date @ str_keys bi d @ '').''))
        else (case dict_get d ''homeworks'' of
                JList homeworks \<Rightarrow> Inr homeworks
              | other \<Rightarrow> Inl (Exn TypeError (t_not_list @ str_type other @ t_instead))))"
  by (simp add: check_response_def and_then_def logging_def raise_def return_def
      split: json.splits)

text \<open>
  Claim C5. When the response is a mapping that binds \<^verbatim>\<open>homeworks\<close> to a list and has the
  \<^verbatim>\<open>current_date\<close> key, \<^verbatim>\<open>check_response\<close> returns that list as it is. In every other case
  it raises an error that names what is wrong. When the response is no mapping, a
  \<^verbatim>\<open>TypeError\<close> whose message holds the type of the response. When it is a mapping in
  which \<^verbatim>\<open>homeworks\<close> is bound to a value that is no list, a \<^verbatim>\<open>TypeError\<close> whose message
  holds the type of that value. When it is a mapping without one of the two keys, a
  \<^verbatim>\<open>KeyError\<close> on the first missing key whose message holds the keys the mapping has.
\<close>

theorem check_response_result:
  "(\<forall>d homeworks.
      response = JDict d \<longrightarrow> map_of d ''homeworks'' = Some (JList homeworks) \<longrightarrow>
      has_key d ''current_date'' \<longrightarrow>
      check_response bi response = ([Log INFO t_checking], Inr homeworks))
   \<and> ((\<nexists>d homeworks. response = JDict d \<and> map_of d ''homeworks'' = Some (JList homeworks)
          \<and> has_key d ''current_date'') \<longrightarrow>
       (\<exists>offending m.
          ((\<forall>d. response \<noteq> JDict d) \<and> offending = response
             \<and> m = t_not_dict @ str_type offending @ t_instead
           \<or> (\<exists>d. response = JDict d \<and> has_key d ''current_date''
                 \<and> map_of d ''homeworks'' = Some offending
                 \<and> (\<forall>homeworks. offending \<noteq> JList homeworks)
                 \<and> m = t_not_list @ str_type offending @ t_instead))
          \<and> snd (check_response bi response) = Inl (Exn TypeError m)
          \<and> sublist (str_type offending) m)
       \<or> (\<exists>d m. response = JDict d
          \<and> (\<not> has_key d ''homeworks'' \<and> m = t_no_homeworks @ str_keys bi d @ '').''
              \<or> has_key d ''homeworks'' \<and> \<not> has_key d ''current_date''
                  \<and> m = t_no_current_date @ str_keys bi d @ '').'')
          \<and> snd (check_response bi response) = Inl (Exn KeyError m)
          \<and> sublist (str_keys bi d) m))"
proof (intro conjI allI impI)
  fix d homeworks
  assume "response = JDict d" "map_of d ''homeworks'' = Some (JList homeworks)"
    "has_key d ''current_date''"
  then show "check_response bi response = ([Log INFO t_checking], Inr homeworks)"
    by (simp add: check_response_dict has_key_def dict_get_def)
next
  assume bad: "\<nexists>d homeworks. response = JDict d
      \<and> map_of d ''homeworks'' = Some (JList homeworks) \<and> has_key d ''current_date''"
  let ?type_error = "\<exists>offending m.
          ((\<forall>d. response \<noteq> JDict d) \<and> offending = response
             \<and> m = t_not_dict @ str_type offending @ t_instead
           \<or> (\<exists>d. response = JDict d \<and> has_key d ''current_date''
                 \<and> map_of d ''homeworks'' = Some offending
                 \<and> (\<forall>homeworks. offending \<noteq> JList homeworks)
                 \<and> m = t_not_list @ str_type offending @ t_instead))
          \<and> snd (check_response bi response) = Inl (Exn TypeError m)
          \<and> sublist (str_type offending) m"
  let ?key_error = "\<exists>d m. response = JDict d
          \<and> (\<not> has_key d ''homeworks'' \<and> m = t_no_homeworks @ str_keys bi d @ '').''
              \<or> has_key d ''homeworks'' \<and> \<not> has_key d ''current_date''
                  \<and> m = t_no_current_date @ str_keys bi d @ '').'')
          \<and> snd (check_response bi response) = Inl (Exn KeyError m)
          \<and> sublist (str_keys bi d) m"
  show "?type_error \<or> ?key_error"
  proof (cases "\<exists>d. response = JDict d")
    case False
    then have "snd (check_response bi response)
        = Inl (Exn TypeError (t_not_dict @ str_type response @ t_instead))"
      by (simp add: check_response_not_dict)
    moreover have "sublist (str_type response) (t_not_dict @ str_type response @ t_instead)"
      by (rule sublist_mid)
    ultimately have ?type_error using False by blast
    then show ?thesis ..
  next
    case True
    then obtain d where d: "response = JDict d" ..
    show ?thesis
    proof (cases "has_key d ''homeworks''")
      case False
      then have "snd (check_response bi response)
          = Inl (Exn KeyError (t_no_homeworks @ str_keys bi d @ '').''))"
        using d by (simp add: check_response_dict)
      moreover have "sublist (str_keys bi d) (t_no_homeworks @ str_keys bi d @ '').'')"
        by (rule sublist_mid)
      ultimately have ?key_error using d False by blast
      then show ?thesis ..
    next
      case hw: True
      show ?thesis
      proof (cases "has_key d ''current_date''")
        case False
        then have "snd (check_response bi response)
            = Inl (Exn KeyError (t_no_current_date @ str_keys bi d @ '').''))"
          using d hw by (simp add: check_response_dict)
        moreover have "sublist (str_keys bi d) (t_no_current_date @ str_keys bi d @ '').'')"
          by (rule sublist_mid)
        ultimately have ?key_error using d hw False by blast
        then show ?thesis ..
      next
        case cd: True
        from hw obtain v where v: "map_of d ''homeworks'' = Some v"
          by (auto simp: has_key_def)
        with bad d cd have not_list: "\<forall>homeworks. v \<noteq> JList homeworks" by auto
        have "snd (check_response bi response)
            = Inl (Exn TypeError (t_not_list @ str_type v @ t_instead))"
          using d hw cd v not_list
          by (cases v) (simp_all add: check_response_dict dict_get_def)
        moreover have "sublist (str_type v) (t_not_list @ str_type v @ t_instead)"
          by (rule sublist_mid)
        ultimately have ?type_error using d cd v not_list by blast
        then show ?thesis ..
      qed
    qed
  qed
qed

theorem check_response_result_witness:
  "check_response plain_builtins
     (JDict [(''homeworks'', JList [JInt 1, JInt 2]), (''current_date'', JInt 7)])
     = ([Log INFO t_checking], Inr [JInt 1, JInt 2])
   \<and> snd (check_response plain_builtins (JDict [(''homeworks'', JList [])]))
     = Inl (Exn KeyError
         (t_no_current_date @ str_keys plain_builtins [(''homeworks'', JList [])] @ '').''))
   \<and> snd (check_response plain_builtins
        (JDict [(''homeworks'', JInt 1), (''current_date'', JInt 7)]))
     = Inl (Exn TypeError (t_not_list @ str_type (JInt 1) @ t_instead))"
proof -
  let ?good = "JDict [(''homeworks'', JList [JInt 1, JInt 2]), (''current_date'', JInt 7)]"
  let ?no_date = "JDict [(''homeworks'', JList [])]"
  let ?no_list = "JDict [(''homeworks'', JInt 1), (''current_date'', JInt 7)]"
  have good: "check_response plain_builtins ?good = ([Log INFO t_checking], Inr [JInt 1, JInt 2])"
    using check_response_result [of ?good plain_builtins] by (simp add: has_key_def)
  have "\<nexists>d homeworks. ?no_date = JDict d
      \<and> map_of d ''homeworks'' = Some (JList homeworks) \<and> has_key d ''current_date''"
    by (simp add: has_key_def)
  from check_response_result [of ?no_date plain_builtins, THEN conjunct2, rule_format, OF this]
  have no_date: "snd (check_response plain_builtins ?no_date)
     = Inl (Exn KeyError
         (t_no_current_date @ str_keys plain_builtins [(''homeworks'', JList [])] @ '').''))"
    by (auto simp: has_key_def)
  have "\<nexists>d homeworks. ?no_list = JDict d
      \<and> map_of d ''homeworks'' = Some (JList homeworks) \<and> has_key d ''current_date''"
    by simp
  from check_response_result [of ?no_list plain_builtins, THEN conjunct2, rule_format, OF this]
  have no_list: "snd (check_response plain_builtins ?no_list)
     = Inl (Exn TypeError (t_not_list @ str_type (JInt 1) @ t_instead))"
    by (auto simp: has_key_def)
  from good no_date no_list show ?thesis by blast
qed

section \<open>The API client\<close>

lemma get_api_answer_fst:
  "fst (get_api_answer bi cfg reply timestamp)
     = [Log INFO (t_requesting @ py_str bi (JDict [(''from_date'', timestamp)]) @ ''.''),
        HttpGet timestamp]"
  by (simp add: get_api_answer_def and_then_def logging_def Let_def
      split: http_outcome.splits sum.splits json_error.splits)

lemma get_api_answer_snd:
  "snd (get_api_answer bi cfg reply timestamp)
     = (case reply of
          RequestException e \<Rightarrow>
            Inl (Exn ConnectionError
              (t_connection @ e @ t_paren_request_url @ ENDPOINT @ t_headers
                 @ py_str bi (HEADERS cfg) @ t_params
                 @ py_str bi (JDict [(''from_date'', timestamp)]) @ '').''))
        | RequestRaises other \<Rightarrow> Inl (as_exn other)
        | Response status_code body \<Rightarrow>
            if status_code \<noteq> 200 then
              Inl (Exn WrongStatusCodeError
                (t_unexpected @ str_int 200 @ t_received @ str_int status_code
                   @ t_request_url @ ENDPOINT @ t_headers @ py_str bi (HEADERS cfg)
                   @ t_params_glued @ py_str bi (JDict [(''from_date'', timestamp)]) @ '').''))
            else
              (case body of
                 Inr parsed \<Rightarrow> Inr parsed
               | Inl (JSONDecodeError e) \<Rightarrow>
                   Inl (Exn GeneralError
                     (t_no_json @ e @ t_paren_request_url @ ENDPOINT @ t_headers
                        @ py_str bi (HEADERS cfg) @ t_params
                        @ py_str bi (JDict [(''from_date'', timestamp)]) @ '').''))
               | Inl (RequestsJSONDecodeError e) \<Rightarrow>
                   Inl (Exn ConnectionError
                     (t_connection @ e @ t_paren_request_url @ ENDPOINT @ t_headers
                        @ py_str bi (HEADERS cfg) @ t_params
                        @ py_str bi (JDict [(''from_date'', timestamp)]) @ '').''))
               | Inl (DecoderRaises other) \<Rightarrow> Inl (as_exn other)))"
  by (simp add: get_api_answer_def and_then_def logging_def Let_def
      split: http_outcome.splits sum.splits json_error.splits)

text \<open>
  Claim C2 says that for every stimulus \<^verbatim>\<open>get_api_answer\<close> has one of four outcomes: the
  parsed body, a \<^verbatim>\<open>WrongStatusCodeError\<close>, the \<^verbatim>\<open>GeneralError\<close> of a decode failure, or a
  \<^verbatim>\<open>ConnectionError\<close>; and that a body that is not parseable JSON gives the decode error.
  A response with status 200 whose body is nested too deeply is not parseable, and the
  decoder raises a \<^verbatim>\<open>RecursionError\<close> on it: neither \<^verbatim>\<open>except\<close> clause takes it, and
  it leaves \<^verbatim>\<open>get_api_answer\<close> as it is, a fifth outcome.
\<close>

theorem get_api_answer_decoder_recursion_counterexample:
  "snd (get_api_answer plain_builtins sample_config
       (Response 200 (Inl (DecoderRaises (OtherRecursionError ''maximum recursion depth''))))
       (JInt 0))
     = Inl (Exn RecursionError ''maximum recursion depth'')
   \<and> raised_class (get_api_answer plain_builtins sample_config
       (Response 200 (Inl (DecoderRaises (OtherRecursionError ''maximum recursion depth''))))
       (JInt 0))
     \<notin> {None, Some WrongStatusCodeError, Some GeneralError, Some ConnectionError}"
  by (simp add: raised_class_def get_api_answer_snd)

text \<open>
  Claim C2, amended. \<^verbatim>\<open>get_api_answer\<close> makes one request and its result is fixed by
  what the network does. Status 200 with a body that parses returns the parsed body. A
  status other than 200 raises a \<^verbatim>\<open>WrongStatusCodeError\<close> naming the expected and the
  received status, whatever the body. Status 200 with a body on which \<^verbatim>\<open>.json()\<close> raises
  a \<^verbatim>\<open>json.JSONDecodeError\<close> raises a \<^verbatim>\<open>GeneralError\<close> holding the decoder's text. A
  \<^verbatim>\<open>RequestException\<close>, of the request or of \<^verbatim>\<open>.json()\<close> on a response with status 200,
  raises a \<^verbatim>\<open>ConnectionError\<close> holding its text. These four results differ from each
  other. They are not all there is: any other exception of the request or of the
  decoder on a response with status 200 leaves \<^verbatim>\<open>get_api_answer\<close> unchanged.
\<close>

theorem get_api_answer_outcomes:
  "(\<forall>parsed. reply = Response 200 (Inr parsed) \<longrightarrow>
      snd (get_api_answer bi cfg reply timestamp) = Inr parsed)
   \<and> (\<forall>status_code body. reply = Response status_code body \<longrightarrow> status_code \<noteq> 200 \<longrightarrow>
      snd (get_api_answer bi cfg reply timestamp)
        = Inl (Exn WrongStatusCodeError
            (t_unexpected @ str_int 200 @ t_received @ str_int status_code
               @ t_request_url @ ENDPOINT @ t_headers @ py_str bi (HEADERS cfg)
               @ t_params_glued @ py_str bi (JDict [(''from_date'', timestamp)]) @ '').'')))
   \<and> (\<forall>e. reply = Response 200 (Inl (JSONDecodeError e)) \<longrightarrow>
      snd (get_api_answer bi cfg reply timestamp)
        = Inl (Exn GeneralError
            (t_no_json @ e @ t_paren_request_url @ ENDPOINT @ t_headers
               @ py_str bi (HEADERS cfg) @ t_params
               @ py_str bi (JDict [(''from_date'', timestamp)]) @ '').'')))
   \<and> (\<forall>e. reply = RequestException e \<or> reply = Response 200 (Inl (RequestsJSONDecodeError e))
      \<longrightarrow>
      snd (get_api_answer bi cfg reply timestamp)
        = Inl (Exn ConnectionError
            (t_connection @ e @ t_paren_request_url @ ENDPOINT @ t_headers
               @ py_str bi (HEADERS cfg) @ t_params
               @ py_str bi (JDict [(''from_date'', timestamp)]) @ '').'')))
   \<and> (\<forall>other. reply = RequestRaises other \<or> reply = Response 200 (Inl (DecoderRaises other))
      \<longrightarrow>
      snd (get_api_answer bi cfg reply timestamp) = Inl (as_exn other)
      \<and> raised_class (get_api_answer bi cfg reply timestamp)
          \<in> {Some RecursionError, Some ValueError})
   \<and> fst (get_api_answer bi cfg reply timestamp)
       = [Log INFO (t_requesting @ py_str bi (JDict [(''from_date'', timestamp)]) @ ''.''),
          HttpGet timestamp]"
proof (intro conjI allI impI)
  fix parsed assume "reply = Response 200 (Inr parsed)"
  then show "snd (get_api_answer bi cfg reply timestamp) = Inr parsed"
    by (simp add: get_api_answer_snd)
next
  fix status_code body
  assume "reply = Response status_code body" "status_code \<noteq> 200"
  then show "snd (get_api_answer bi cfg reply timestamp)
      = Inl (Exn WrongStatusCodeError
          (t_unexpected @ str_int 200 @ t_received @ str_int status_code
             @ t_request_url @ ENDPOINT @ t_headers @ py_str bi (HEADERS cfg)
             @ t_params_glued @ py_str bi (JDict [(''from_date'', timestamp)]) @ '').''))"
    by (simp add: get_api_answer_snd)
next
  fix e assume "reply = Response 200 (Inl (JSONDecodeError e))"
  then show "snd (get_api_answer bi cfg reply timestamp)
      = Inl (Exn GeneralError
          (t_no_json @ e @ t_paren_request_url @ ENDPOINT @ t_headers
             @ py_str bi (HEADERS cfg) @ t_params
             @ py_str bi (JDict [(''from_date'', timestamp)]) @ '').''))"
    by (simp add: get_api_answer_snd)
next
  fix e
  assume "reply = RequestException e \<or> reply = Response 200 (Inl (RequestsJSONDecodeError e))"
  then show "snd (get_api_answer bi cfg reply timestamp)
      = Inl (Exn ConnectionError
          (t_connection @ e @ t_paren_request_url @ ENDPOINT @ t_headers
             @ py_str bi (HEADERS cfg) @ t_params
             @ py_str bi (JDict [(''from_date'', timestamp)]) @ '').''))"
    by (auto simp: get_api_answer_snd)
next
  fix other
  assume other: "reply = RequestRaises other \<or> reply = Response 200 (Inl (DecoderRaises other))"
  then show passes: "snd (get_api_answer bi cfg reply timestamp) = Inl (as_exn other)"
    by (auto simp: get_api_answer_snd)
  then show "raised_class (get_api_answer bi cfg reply timestamp)
      \<in> {Some RecursionError, Some ValueError}"
    by (cases other) (simp_all add: raised_class_def)
next
  show "fst (get_api_answer bi cfg reply timestamp)
      = [Log INFO (t_requesting @ py_str bi (JDict [(''from_date'', timestamp)]) @ ''.''),
         HttpGet timestamp]"
    by (rule get_api_answer_fst)
qed

theorem get_api_answer_outcomes_witness:
  "snd (get_api_answer plain_builtins sample_config (Response 200 (Inr (JInt 1))) (JInt 0))
     = Inr (JInt 1)
   \<and> raised_class (get_api_answer plain_builtins sample_config
        (Response 503 (Inl (JSONDecodeError ''Expecting value''))) (JInt 0))
     = Some WrongStatusCodeError
   \<and> raised_class (get_api_answer plain_builtins sample_config
        (Response 200 (Inl (JSONDecodeError ''Expecting value''))) (JInt 0))
     = Some GeneralError
   \<and> raised_class (get_api_answer plain_builtins sample_config
        (RequestException ''timed out'') (JInt 0))
     = Some ConnectionError
   \<and> raised_class (get_api_answer plain_builtins sample_config
        (Response 200 (Inl (RequestsJSONDecodeError ''Expecting value''))) (JInt 0))
     = Some ConnectionError
   \<and> raised_class (get_api_answer plain_builtins sample_config
        (Response 200 (Inl (DecoderRaises (OtherValueError ''Exceeds the limit'')))) (JInt 0))
     = Some ValueError"
proof (intro conjI)
  show "snd (get_api_answer plain_builtins sample_config (Response 200 (Inr (JInt 1))) (JInt 0))
      = Inr (JInt 1)"
    by (rule get_api_answer_outcomes [THEN conjunct1, rule_format, OF refl])
next
  have "(503::int) \<noteq> 200" by simp
  from get_api_answer_outcomes [THEN conjunct2, THEN conjunct1, rule_format, OF refl this]
  show "raised_class (get_api_answer plain_builtins sample_config
      (Response 503 (Inl (JSONDecodeError ''Expecting value''))) (JInt 0))
      = Some WrongStatusCodeError"
    by (simp add: raised_class_def)
next
  from get_api_answer_outcomes
    [THEN conjunct2, THEN conjunct2, THEN conjunct1, rule_format, OF refl]
  show "raised_class (get_api_answer plain_builtins sample_config
      (Response 200 (Inl (JSONDecodeError ''Expecting value''))) (JInt 0)) = Some GeneralError"
    by (simp add: raised_class_def)
next
  from get_api_answer_outcomes
    [THEN conjunct2, THEN conjunct2, THEN conjunct2, THEN conjunct1, rule_format,
      OF disjI1, OF refl]
  show "raised_class (get_api_answer plain_builtins sample_config
      (RequestException ''timed out'') (JInt 0)) = Some ConnectionError"
    by (simp add: raised_class_def)
next
  from get_api_answer_outcomes
    [THEN conjunct2, THEN conjunct2, THEN conjunct2, THEN conjunct1, rule_format,
      OF disjI2, OF refl]
  show "raised_class (get_api_answer plain_builtins sample_config
      (Response 200 (Inl (RequestsJSONDecodeError ''Expecting value''))) (JInt 0))
      = Some ConnectionError"
    by (simp add: raised_class_def)
next
  from get_api_answer_outcomes
    [THEN conjunct2, THEN conjunct2, THEN conjunct2, THEN conjunct2, THEN conjunct1,
      rule_format, OF disjI2, OF refl]
  have "snd (get_api_answer plain_builtins sample_config
      (Response 200 (Inl (DecoderRaises (OtherValueError ''Exceeds the limit'')))) (JInt 0))
      = Inl (as_exn (OtherValueError ''Exceeds the limit''))"
    by blast
  then show "raised_class (get_api_answer plain_builtins sample_config
      (Response 200 (Inl (DecoderRaises (OtherValueError ''Exceeds the limit'')))) (JInt 0))
      = Some ValueError"
    by (simp add: raised_class_def)
qed

section \<open>Traces and results of the operations\<close>

lemma sent_texts_append: "sent_texts (xs @ ys) = sent_texts xs @ sent_texts ys"
  by (induction xs rule: sent_texts.induct) simp_all

lemma send_message_fst:
  "fst (send_message cfg sent message)
     = [Log INFO (t_sending @ message @ t_to_chat @ str_opt (TELEGRAM_CHAT_ID cfg) @ ''.''),
        BotSend message,
        (case sent of
           TelegramError error \<Rightarrow>
             Log ERROR (t_send_failed @ error @ t_sending_to @ str_opt (TELEGRAM_CHAT_ID cfg)
                          @ t_text @ message @ '').'')
         | Delivered \<Rightarrow> Log DEBUG (t_message @ message @ t_sent))]"
  by (simp add: send_message_def and_then_def logging_def Let_def split: bot_outcome.splits)

lemma send_message_snd:
  "snd (send_message cfg sent message)
     = (case sent of
          TelegramError error \<Rightarrow>
            Inl (Exn MessageNotSentError
              (t_send_failed @ error @ t_sending_to @ str_opt (TELEGRAM_CHAT_ID cfg)
                 @ t_text @ message @ '').''))
        | Delivered \<Rightarrow> Inr ())"
  by (simp add: send_message_def and_then_def logging_def Let_def split: bot_outcome.splits)

lemma send_message_raises:
  "snd (send_message cfg sent message) = Inl e \<Longrightarrow> exn_class_of e = MessageNotSentError"
  by (auto simp: send_message_snd split: bot_outcome.splits)

lemma check_response_fst: "fst (check_response bi response) = [Log INFO t_checking]"
  by (cases response) (simp_all add: check_response_dict check_response_not_dict)

lemma check_response_raises:
  assumes "snd (check_response bi response) = Inl e"
  shows "exn_class_of e = KeyError \<or> exn_class_of e = TypeError"
proof (cases response)
  case (JDict d)
  with assms show ?thesis
    by (auto simp: check_response_dict split: if_splits json.splits)
qed (use assms in \<open>auto simp: check_response_not_dict\<close>)

lemma check_response_returns:
  assumes "snd (check_response bi response) = Inr homeworks"
  obtains d where "response = JDict d" "has_key d ''homeworks''" "has_key d ''current_date''"
    "dict_get d ''homeworks'' = JList homeworks"
proof (cases response)
  case (JDict d)
  with assms have "has_key d ''homeworks''" "has_key d ''current_date''"
    "dict_get d ''homeworks'' = JList homeworks"
    by (auto simp: check_response_dict split: if_splits json.splits)
  with JDict that show ?thesis by blast
qed (use assms in \<open>auto simp: check_response_not_dict\<close>)

lemma parse_status_fst: "fst (parse_status bi homeworks) = [Log INFO t_extracting]"
  by (simp add: parse_status_def fst_and_then logging_def raise_def return_def Let_def
      split: json.splits sum.splits option.splits)

lemma verdict_lookup_raises:
  "verdict_lookup bi st = Inl e \<Longrightarrow> exn_class_of e = TypeError"
  by (cases st) (auto simp: verdict_lookup_def)

lemma parse_status_raises:
  assumes "snd (parse_status bi homeworks) = Inl e"
  shows "exn_class_of e \<in> {KeyError, CommonError, TypeError, AttributeError}"
proof (cases homeworks)
  case (JDict d)
  with assms show ?thesis
    by (auto simp: parse_status_def snd_and_then logging_def raise_def return_def Let_def
        dest: verdict_lookup_raises split: if_splits sum.splits option.splits)
qed (use assms in \<open>auto simp: parse_status_def snd_and_then logging_def raise_def
        split: if_splits\<close>)

lemma and_then_Inl: "snd m = Inl e \<Longrightarrow> and_then m f = (fst m, Inl e)"
  by (cases m) (simp add: and_then_def)

lemma and_then_Inr: "snd m = Inr x \<Longrightarrow> and_then m f = (fst m @ fst (f x), snd (f x))"
  by (cases m) (simp add: and_then_def split: prod.splits)

lemma and_then_logging: "and_then (logging lvl s) f = (Log lvl s # fst (f ()), snd (f ()))"
  by (simp add: and_then_def logging_def split: prod.splits)

section \<open>The control loop\<close>

text \<open>The ways through the \<^verbatim>\<open>try\<close> block, each with its trace and its result.\<close>

lemma try_block_cases [case_names fetch_failed invalid parse_failed send_failed sent]:
  fixes bi cfg env timestamp
  defines "G \<equiv> fst (get_api_answer bi cfg (net env) timestamp)"
  obtains
    e where "snd (get_api_answer bi cfg (net env) timestamp) = Inl e"
      "try_block bi cfg env timestamp = (G, Inl e)"
  | response e where "snd (get_api_answer bi cfg (net env) timestamp) = Inr response"
      "snd (check_response bi response) = Inl e"
      "try_block bi cfg env timestamp = (G @ [Log INFO t_checking], Inl e)"
  | d first rest e where
      "snd (get_api_answer bi cfg (net env) timestamp) = Inr (JDict d)"
      "snd (check_response bi (JDict d)) = Inr (first # rest)"
      "snd (parse_status bi first) = Inl e"
      "try_block bi cfg env timestamp
         = (G @ [Log INFO t_checking, Log INFO (t_got_list @ py_str bi (JDict d)),
                 Log INFO t_extracting], Inl e)"
  | d homeworks pre message e where
      "snd (get_api_answer bi cfg (net env) timestamp) = Inr (JDict d)"
      "snd (check_response bi (JDict d)) = Inr homeworks"
      "sent_texts pre = []"
      "snd (send_message cfg (bot_try env) message) = Inl e"
      "try_block bi cfg env timestamp
         = (pre @ fst (send_message cfg (bot_try env) message), Inl e)"
  | d homeworks pre message where
      "snd (get_api_answer bi cfg (net env) timestamp) = Inr (JDict d)"
      "snd (check_response bi (JDict d)) = Inr homeworks"
      "sent_texts pre = []"
      "snd (send_message cfg (bot_try env) message) = Inr ()"
      "homeworks = [] \<and> message = t_no_new
       \<or> (\<exists>first rest. homeworks = first # rest \<and> snd (parse_status bi first) = Inr message)"
      "try_block bi cfg env timestamp
         = (pre @ fst (send_message cfg (bot_try env) message),
            Inr (dict_get d ''current_date''))"
proof (cases "snd (get_api_answer bi cfg (net env) timestamp)")
  case (Inl e)
  then have "try_block bi cfg env timestamp = (G, Inl e)"
    by (simp add: try_block_def and_then_Inl G_def)
  with Inl that(1) show ?thesis by blast
next
  case got: (Inr response)
  show ?thesis
  proof (cases "snd (check_response bi response)")
    case (Inl e)
    with got have "try_block bi cfg env timestamp = (G @ [Log INFO t_checking], Inl e)"
      by (simp add: try_block_def and_then_Inl and_then_Inr G_def check_response_fst)
    with got Inl that(2) show ?thesis by blast
  next
    case valid: (Inr homeworks)
    then obtain d where d: "response = JDict d"
      by (rule check_response_returns)
    let ?pre = "G @ [Log INFO t_checking, Log INFO (t_got_list @ py_str bi (JDict d))]"
    have G_quiet: "sent_texts G = []"
      by (simp add: G_def get_api_answer_fst)
    have rg: "response_get bi (JDict d) ''current_date'' = ([], Inr (dict_get d ''current_date''))"
      by (simp add: response_get_def return_def)
    show ?thesis
    proof (cases homeworks)
      case Nil
      let ?S = "send_message cfg (bot_try env) t_no_new"
      have quiet: "sent_texts (?pre @ [Log DEBUG t_no_new]) = []"
        using G_quiet by (simp add: sent_texts_append)
      show ?thesis
      proof (cases "snd ?S")
        case (Inl e)
        with got valid d Nil
        have "try_block bi cfg env timestamp = ((?pre @ [Log DEBUG t_no_new]) @ fst ?S, Inl e)"
          by (simp add: try_block_def and_then_Inl and_then_Inr and_then_logging G_def
              check_response_fst)
        with got valid d quiet Inl that(4) show ?thesis by blast
      next
        case (Inr u)
        with got valid d Nil rg
        have "try_block bi cfg env timestamp
            = ((?pre @ [Log DEBUG t_no_new]) @ fst ?S, Inr (dict_get d ''current_date''))"
          by (simp add: try_block_def and_then_Inl and_then_Inr and_then_logging G_def
              check_response_fst)
        moreover from Inr have "snd ?S = Inr ()" by simp
        ultimately show ?thesis using got valid d quiet Nil that(5) by blast
      qed
    next
      case (Cons first rest)
      show ?thesis
      proof (cases "snd (parse_status bi first)")
        case (Inl e)
        with got valid d Cons
        have "try_block bi cfg env timestamp
            = (G @ [Log INFO t_checking, Log INFO (t_got_list @ py_str bi (JDict d)),
                    Log INFO t_extracting], Inl e)"
          by (simp add: try_block_def and_then_Inl and_then_Inr and_then_logging G_def
              check_response_fst parse_status_fst)
        with got valid d Cons Inl that(3) show ?thesis by blast
      next
        case parsed: (Inr message)
        let ?S = "send_message cfg (bot_try env) message"
        have quiet: "sent_texts (?pre @ [Log INFO t_extracting]) = []"
          using G_quiet by (simp add: sent_texts_append)
        show ?thesis
        proof (cases "snd ?S")
          case (Inl e)
          with got valid d Cons parsed
          have "try_block bi cfg env timestamp
              = ((?pre @ [Log INFO t_extracting]) @ fst ?S, Inl e)"
            by (simp add: try_block_def and_then_Inl and_then_Inr and_then_logging G_def
                check_response_fst parse_status_fst)
          with got valid d quiet Inl that(4) show ?thesis by blast
        next
          case (Inr u)
          with got valid d Cons parsed rg
          have "try_block bi cfg env timestamp
              = ((?pre @ [Log INFO t_extracting]) @ fst ?S, Inr (dict_get d ''current_date''))"
            by (simp add: try_block_def and_then_Inl and_then_Inr and_then_logging G_def
                check_response_fst parse_status_fst)
          moreover from Inr have "snd ?S = Inr ()" by simp
          ultimately show ?thesis using got valid d quiet Cons parsed that(5) by blast
        qed
      qed
    qed
  qed
qed

lemma as_exn_class:
  "exn_class_of (as_exn other) = RecursionError \<or> exn_class_of (as_exn other) = ValueError"
  by (cases other) simp_all

lemma get_api_answer_returns:
  "snd (get_api_answer bi cfg reply timestamp) = Inr parsed \<Longrightarrow> reply = Response 200 (Inr parsed)"
  by (auto simp: get_api_answer_snd
      split: http_outcome.splits if_splits sum.splits json_error.splits)

lemma get_api_answer_raises:
  "snd (get_api_answer bi cfg reply timestamp) = Inl e \<Longrightarrow>
     exn_class_of e
       \<in> {ConnectionError, WrongStatusCodeError, GeneralError, RecursionError, ValueError}"
  using as_exn_class
  by (auto simp: get_api_answer_snd
      split: http_outcome.splits if_splits sum.splits json_error.splits)

lemma try_block_raises:
  assumes "snd (try_block bi cfg env timestamp) = Inl e"
  shows "is_Exception (exn_class_of e)"
proof (cases bi cfg env timestamp rule: try_block_cases)
  case (fetch_failed e')
  with assms get_api_answer_raises [of bi cfg "net env" timestamp e'] show ?thesis by auto
next
  case (invalid response e')
  with assms check_response_raises [of bi response e'] show ?thesis by auto
next
  case (parse_failed d first rest e')
  with assms parse_status_raises [of bi first e'] show ?thesis by auto
next
  case (send_failed d homeworks pre message e')
  with assms send_message_raises [of cfg "bot_try env" message e'] show ?thesis by auto
next
  case (sent d homeworks pre message)
  with assms show ?thesis by simp
qed

lemma try_block_quiet_failure:
  assumes "snd (try_block bi cfg env timestamp) = Inl e"
    and "\<not> is_GeneralError (exn_class_of e)"
  shows "sent_texts (fst (try_block bi cfg env timestamp)) = []"
proof (cases bi cfg env timestamp rule: try_block_cases)
  case (fetch_failed e')
  then show ?thesis by (simp add: get_api_answer_fst)
next
  case (invalid response e')
  then show ?thesis by (simp add: get_api_answer_fst sent_texts_append)
next
  case (parse_failed d first rest e')
  then show ?thesis by (simp add: get_api_answer_fst sent_texts_append)
next
  case (send_failed d homeworks pre message e')
  with assms send_message_raises [of cfg "bot_try env" message e'] show ?thesis by auto
next
  case (sent d homeworks pre message)
  with assms show ?thesis by simp
qed

lemma iteration_success:
  assumes "snd (try_block bi cfg env timestamp) = Inr timestamp'"
  shows "iteration bi cfg env timestamp
           = (fst (try_block bi cfg env timestamp) @ [Sleep RETRY_PERIOD], Inr timestamp')"
  using assms
  by (cases "try_block bi cfg env timestamp")
     (simp add: iteration_def try_finally_def try_except_def sleep_def)

lemma iteration_general:
  assumes "snd (try_block bi cfg env timestamp) = Inl error"
    and "is_GeneralError (exn_class_of error)"
  shows "iteration bi cfg env timestamp
           = (fst (try_block bi cfg env timestamp) @ [Log ERROR (exn_str bi error)]
                @ fst (send_message cfg (bot_except env) (exn_str bi error))
                @ [Sleep RETRY_PERIOD],
              case snd (send_message cfg (bot_except env) (exn_str bi error)) of
                Inl e \<Rightarrow> Inl e
              | Inr u \<Rightarrow> Inr timestamp)"
  using assms
  by (cases "try_block bi cfg env timestamp";
      cases "snd (send_message cfg (bot_except env) (exn_str bi error))")
     (simp_all add: iteration_def try_finally_def try_except_def sleep_def except_clauses_def
        and_then_logging and_then_Inl and_then_Inr return_def)

lemma iteration_other:
  assumes "snd (try_block bi cfg env timestamp) = Inl error"
    and "\<not> is_GeneralError (exn_class_of error)"
  shows "iteration bi cfg env timestamp
           = (fst (try_block bi cfg env timestamp)
                @ [Log ERROR (exn_str bi error), Sleep RETRY_PERIOD],
              Inr timestamp)"
  using assms try_block_raises [OF assms(1)]
  by (cases "try_block bi cfg env timestamp")
     (simp add: iteration_def try_finally_def try_except_def sleep_def except_clauses_def
        and_then_logging return_def)

lemma main_loop_continues:
  assumes "snd (iteration bi cfg env timestamp) = Inr timestamp'"
  shows "main_loop bi cfg (env # envs) timestamp
           = (fst (iteration bi cfg env timestamp) @ fst (main_loop bi cfg envs timestamp'),
              snd (main_loop bi cfg envs timestamp'))"
  using assms by (simp add: and_then_Inr)

lemma main_loop_stops:
  assumes "snd (iteration bi cfg env timestamp) = Inl e"
  shows "main_loop bi cfg (env # envs) timestamp = (fst (iteration bi cfg env timestamp), Inl e)"
  using assms by (simp add: and_then_Inl)

lemma and_then_starts: "\<exists>rest. fst (and_then m f) = fst m @ rest"
  by (cases "snd m") (simp_all add: fst_and_then)

lemma try_block_starts:
  "\<exists>rest. fst (try_block bi cfg env timestamp)
     = Log INFO (t_requesting @ py_str bi (JDict [(''from_date'', timestamp)]) @ ''.'')
       # HttpGet timestamp # rest"
proof -
  obtain rest where "fst (try_block bi cfg env timestamp)
      = fst (get_api_answer bi cfg (net env) timestamp) @ rest"
    unfolding try_block_def using and_then_starts by blast
  then show ?thesis by (simp add: get_api_answer_fst)
qed

lemma iteration_starts:
  "\<exists>rest. fst (iteration bi cfg env timestamp)
     = Log INFO (t_requesting @ py_str bi (JDict [(''from_date'', timestamp)]) @ ''.'')
       # HttpGet timestamp # rest"
proof -
  obtain rest where rest: "fst (try_block bi cfg env timestamp)
     = Log INFO (t_requesting @ py_str bi (JDict [(''from_date'', timestamp)]) @ ''.'')
       # HttpGet timestamp # rest"
    using try_block_starts by blast
  show ?thesis
  proof (cases "snd (try_block bi cfg env timestamp)")
    case (Inr timestamp')
    then show ?thesis using rest by (simp add: iteration_success)
  next
    case (Inl error)
    then show ?thesis using rest
      by (cases "is_GeneralError (exn_class_of error)")
         (simp_all add: iteration_general iteration_other)
  qed
qed

lemma is_GeneralError_iff:
  "is_GeneralError c \<longleftrightarrow>
     c \<in> {GeneralError, ConnectionError, WrongStatusCodeError, MessageNotSentError}"
  by (cases c) simp_all

text \<open>
  Claim C7. The loop routes a failure of the \<^verbatim>\<open>try\<close> block by its class. An error of the
  \<^verbatim>\<open>GeneralError\<close> family (the class itself, which the decode failure has, and
  \<^verbatim>\<open>ConnectionError\<close>, \<^verbatim>\<open>WrongStatusCodeError\<close>, \<^verbatim>\<open>MessageNotSentError\<close>) is logged at
  level \<^verbatim>\<open>ERROR\<close> and its text is handed to \<^verbatim>\<open>bot.send_message\<close>. Any other error
  (the validator's \<^verbatim>\<open>TypeError\<close> and \<^verbatim>\<open>KeyError\<close>, the formatter's \<^verbatim>\<open>CommonError\<close>) is
  logged at level \<^verbatim>\<open>ERROR\<close> and the whole pass hands nothing to \<^verbatim>\<open>bot.send_message\<close>.
\<close>

theorem iteration_routes_by_error_kind:
  assumes failed: "snd (try_block bi cfg env timestamp) = Inl error"
  shows "(is_GeneralError (exn_class_of error) \<longleftrightarrow>
            exn_class_of error
              \<in> {GeneralError, ConnectionError, WrongStatusCodeError, MessageNotSentError})
       \<and> (is_GeneralError (exn_class_of error) \<longrightarrow>
            fst (iteration bi cfg env timestamp)
              = fst (try_block bi cfg env timestamp) @ [Log ERROR (exn_str bi error)]
                  @ fst (send_message cfg (bot_except env) (exn_str bi error))
                  @ [Sleep RETRY_PERIOD]
            \<and> Log ERROR (exn_str bi error) \<in> set (fst (iteration bi cfg env timestamp))
            \<and> BotSend (exn_str bi error) \<in> set (fst (iteration bi cfg env timestamp)))
       \<and> (\<not> is_GeneralError (exn_class_of error) \<longrightarrow>
            fst (iteration bi cfg env timestamp)
              = fst (try_block bi cfg env timestamp)
                  @ [Log ERROR (exn_str bi error), Sleep RETRY_PERIOD]
            \<and> Log ERROR (exn_str bi error) \<in> set (fst (iteration bi cfg env timestamp))
            \<and> sent_texts (fst (iteration bi cfg env timestamp)) = [])"
proof (intro conjI impI)
  show "is_GeneralError (exn_class_of error) \<longleftrightarrow>
      exn_class_of error
        \<in> {GeneralError, ConnectionError, WrongStatusCodeError, MessageNotSentError}"
    by (rule is_GeneralError_iff)
next
  assume general: "is_GeneralError (exn_class_of error)"
  show trace: "fst (iteration bi cfg env timestamp)
      = fst (try_block bi cfg env timestamp) @ [Log ERROR (exn_str bi error)]
          @ fst (send_message cfg (bot_except env) (exn_str bi error))
          @ [Sleep RETRY_PERIOD]"
    by (simp add: iteration_general [OF failed general])
  show "Log ERROR (exn_str bi error) \<in> set (fst (iteration bi cfg env timestamp))"
    unfolding trace by simp
  show "BotSend (exn_str bi error) \<in> set (fst (iteration bi cfg env timestamp))"
    unfolding trace by (simp add: send_message_fst)
next
  assume other: "\<not> is_GeneralError (exn_class_of error)"
  show trace: "fst (iteration bi cfg env timestamp)
      = fst (try_block bi cfg env timestamp)
          @ [Log ERROR (exn_str bi error), Sleep RETRY_PERIOD]"
    by (simp add: iteration_other [OF failed other])
  show "Log ERROR (exn_str bi error) \<in> set (fst (iteration bi cfg env timestamp))"
    unfolding trace by simp
  show "sent_texts (fst (iteration bi cfg env timestamp)) = []"
    unfolding trace
    by (simp add: sent_texts_append try_block_quiet_failure [OF failed other])
qed

lemma try_block_when_fetch_fails:
  "snd (get_api_answer bi cfg (net env) timestamp) = Inl e \<Longrightarrow>
     try_block bi cfg env timestamp = (fst (get_api_answer bi cfg (net env) timestamp), Inl e)"
  by (simp add: try_block_def and_then_Inl)

lemma try_block_when_invalid:
  "snd (get_api_answer bi cfg (net env) timestamp) = Inr response \<Longrightarrow>
   snd (check_response bi response) = Inl e \<Longrightarrow>
     try_block bi cfg env timestamp
       = (fst (get_api_answer bi cfg (net env) timestamp) @ [Log INFO t_checking], Inl e)"
  by (simp add: try_block_def and_then_Inl and_then_Inr check_response_fst)

theorem iteration_routes_by_error_kind_witness:
  "is_GeneralError ConnectionError
   \<and> BotSend (t_connection @ ''timed out'' @ t_paren_request_url @ ENDPOINT @ t_headers
               @ py_str plain_builtins (HEADERS sample_config) @ t_params
               @ py_str plain_builtins (JDict [(''from_date'', JInt 0)]) @ '').'')
       \<in> set (fst (iteration plain_builtins sample_config
            \<lparr>net = RequestException ''timed out'', bot_try = Delivered,
             bot_except = Delivered\<rparr> (JInt 0)))
   \<and> \<not> is_GeneralError TypeError
   \<and> sent_texts (fst (iteration plain_builtins sample_config
         \<lparr>net = Response 200 (Inr (JList [])), bot_try = Delivered,
          bot_except = Delivered\<rparr> (JInt 0))) = []"
proof -
  let ?down = "\<lparr>net = RequestException ''timed out'', bot_try = Delivered,
    bot_except = Delivered\<rparr>"
  let ?odd = "\<lparr>net = Response 200 (Inr (JList [])), bot_try = Delivered,
    bot_except = Delivered\<rparr>"
  let ?e1 = "Exn ConnectionError
    (t_connection @ ''timed out'' @ t_paren_request_url @ ENDPOINT @ t_headers
       @ py_str plain_builtins (HEADERS sample_config) @ t_params
       @ py_str plain_builtins (JDict [(''from_date'', JInt 0)]) @ '').'')"
  let ?e2 = "Exn TypeError (t_not_dict @ str_type (JList []) @ t_instead)"
  have 1: "snd (try_block plain_builtins sample_config ?down (JInt 0)) = Inl ?e1"
    by (simp add: try_block_when_fetch_fails get_api_answer_snd)
  have 2: "snd (try_block plain_builtins sample_config ?odd (JInt 0)) = Inl ?e2"
    by (simp add: try_block_when_invalid get_api_answer_snd check_response_not_dict)
  have general: "is_GeneralError (exn_class_of ?e1)" by simp
  have other: "\<not> is_GeneralError (exn_class_of ?e2)" by simp
  from iteration_routes_by_error_kind [OF 1, THEN conjunct2, THEN conjunct1, rule_format,
      OF general]
  have "BotSend (exn_str plain_builtins ?e1)
      \<in> set (fst (iteration plain_builtins sample_config ?down (JInt 0)))"
    by blast
  then have forwarded: "BotSend (exn_arg ?e1)
      \<in> set (fst (iteration plain_builtins sample_config ?down (JInt 0)))"
    by simp
  from iteration_routes_by_error_kind [OF 2, THEN conjunct2, THEN conjunct2, rule_format,
      OF other]
  have quiet: "sent_texts (fst (iteration plain_builtins sample_config ?odd (JInt 0))) = []"
    by blast
  from forwarded quiet show ?thesis by simp
qed

lemma try_block_returns:
  assumes "snd (try_block bi cfg env timestamp) = Inr timestamp'"
  obtains d homeworks where "net env = Response 200 (Inr (JDict d))"
    "map_of d ''homeworks'' = Some (JList homeworks)"
    "map_of d ''current_date'' = Some timestamp'"
    "bot_try env = Delivered"
proof (cases bi cfg env timestamp rule: try_block_cases)
  case (sent d homeworks pre message)
  from sent(1) have reply: "net env = Response 200 (Inr (JDict d))"
    by (rule get_api_answer_returns)
  from sent(2) have keys: "has_key d ''homeworks''" "has_key d ''current_date''"
    and hw: "dict_get d ''homeworks'' = JList homeworks"
    by (auto elim: check_response_returns)
  from keys(1) hw have 1: "map_of d ''homeworks'' = Some (JList homeworks)"
    by (auto simp: has_key_def dict_get_def)
  from sent(6) assms have "timestamp' = dict_get d ''current_date''" by simp
  with keys(2) have 2: "map_of d ''current_date'' = Some timestamp'"
    by (auto simp: has_key_def dict_get_def)
  from sent(4) have 3: "bot_try env = Delivered"
    by (simp add: send_message_snd split: bot_outcome.splits)
  from reply 1 2 3 show ?thesis by (rule that)
qed (use assms in simp_all)

text \<open>
  Claim C6. After a pass in which the \<^verbatim>\<open>try\<close> block runs to its end (request,
  validation and notification all succeed), the cursor is the value the response binds
  to \<^verbatim>\<open>current_date\<close>: the pass returns it, and the rest of the loop runs from it.
  No clock is read.
\<close>

theorem cursor_after_successful_cycle:
  assumes "snd (try_block bi cfg env timestamp) = Inr timestamp'"
  shows "\<exists>d. net env = Response 200 (Inr (JDict d))
           \<and> map_of d ''current_date'' = Some timestamp'
           \<and> snd (iteration bi cfg env timestamp) = Inr timestamp'
           \<and> (\<forall>envs. main_loop bi cfg (env # envs) timestamp
                  = (fst (iteration bi cfg env timestamp)
                       @ fst (main_loop bi cfg envs timestamp'),
                     snd (main_loop bi cfg envs timestamp')))"
proof -
  from assms obtain d where "net env = Response 200 (Inr (JDict d))"
    "map_of d ''current_date'' = Some timestamp'"
    by (rule try_block_returns)
  moreover have next_cursor: "snd (iteration bi cfg env timestamp) = Inr timestamp'"
    by (simp add: iteration_success [OF assms])
  moreover have "main_loop bi cfg (env # envs) timestamp
      = (fst (iteration bi cfg env timestamp) @ fst (main_loop bi cfg envs timestamp'),
         snd (main_loop bi cfg envs timestamp'))" for envs
    by (rule main_loop_continues [OF next_cursor])
  ultimately show ?thesis by blast
qed

lemma try_block_when_sent:
  assumes "snd (get_api_answer bi cfg (net env) timestamp) = Inr (JDict d)"
    and "snd (check_response bi (JDict d)) = Inr homeworks"
    and "(case homeworks of
            [] \<Rightarrow> Inr t_no_new
          | first # rest \<Rightarrow> snd (parse_status bi first)) = Inr message"
    and "bot_try env = Delivered"
  shows "snd (try_block bi cfg env timestamp) = Inr (dict_get d ''current_date'')"
  using assms
  by (cases homeworks)
     (simp_all add: try_block_def snd_and_then logging_def send_message_snd response_get_def
        return_def)

theorem cursor_after_successful_cycle_witness:
  "snd (iteration plain_builtins sample_config
      \<lparr>net = Response 200 (Inr (JDict
         [(''homeworks'',
           JList [JDict [(''homework_name'', JStr ''X''), (''status'', JStr ''approved'')]]),
          (''current_date'', JInt 1000)])),
       bot_try = Delivered, bot_except = Delivered\<rparr> (JInt 5)) = Inr (JInt 1000)"
proof -
  let ?d = "[(''homeworks'',
      JList [JDict [(''homework_name'', JStr ''X''), (''status'', JStr ''approved'')]]),
     (''current_date'', JInt 1000)]"
  let ?env = "\<lparr>net = Response 200 (Inr (JDict ?d)), bot_try = Delivered,
     bot_except = Delivered\<rparr>"
  have "snd (try_block plain_builtins sample_config ?env (JInt 5))
      = Inr (dict_get ?d ''current_date'')"
    by (rule try_block_when_sent
        [where homeworks = "[JDict [(''homework_name'', JStr ''X''),
            (''status'', JStr ''approved'')]]"
          and message = "t_changed @ ''X'' @ [CHR 0x22] @ ''. '' @ verdict_approved"])
       (simp_all add: get_api_answer_snd check_response_dict has_key_def dict_get_def
          parse_status_def snd_and_then logging_def return_def verdict_lookup_def
          verdicts_table)
  then have ok: "snd (try_block plain_builtins sample_config ?env (JInt 5)) = Inr (JInt 1000)"
    by (simp add: dict_get_def)
  from cursor_after_successful_cycle [OF ok] show ?thesis by blast
qed

lemma try_block_without_current_date:
  assumes reply: "net env = Response 200 (Inr (JDict d))"
    and absent: "\<not> has_key d ''current_date''"
  shows "\<exists>m. try_block bi cfg env timestamp
           = ([Log INFO (t_requesting @ py_str bi (JDict [(''from_date'', timestamp)]) @ ''.''),
               HttpGet timestamp, Log INFO t_checking],
              Inl (Exn KeyError m))
         \<and> sublist (str_keys bi d) m"
proof -
  from reply have got: "snd (get_api_answer bi cfg (net env) timestamp) = Inr (JDict d)"
    by (simp add: get_api_answer_snd)
  define m where "m = (if has_key d ''homeworks'' then t_no_current_date else t_no_homeworks)
      @ str_keys bi d @ '').''"
  from absent have "snd (check_response bi (JDict d)) = Inl (Exn KeyError m)"
    by (simp add: check_response_dict m_def)
  from try_block_when_invalid [OF got this]
  have "try_block bi cfg env timestamp
      = ([Log INFO (t_requesting @ py_str bi (JDict [(''from_date'', timestamp)]) @ ''.''),
          HttpGet timestamp, Log INFO t_checking],
         Inl (Exn KeyError m))"
    by (simp add: get_api_answer_fst)
  moreover have "sublist (str_keys bi d) m"
    unfolding m_def by (rule sublist_mid)
  ultimately show ?thesis by blast
qed

text \<open>
  Claim C8. When the response of a pass is a mapping without the \<^verbatim>\<open>current_date\<close> key, the
  \<^verbatim>\<open>try\<close> block fails with a \<^verbatim>\<open>KeyError\<close>, which is outside the \<^verbatim>\<open>GeneralError\<close>
  family: the pass logs it, hands nothing to \<^verbatim>\<open>bot.send_message\<close>, sleeps, and leaves
  the cursor as it was.
\<close>

theorem missing_current_date_logged_only:
  assumes reply: "net env = Response 200 (Inr (JDict d))"
    and absent: "\<not> has_key d ''current_date''"
  shows "\<exists>error.
           snd (try_block bi cfg env timestamp) = Inl error
         \<and> exn_class_of error = KeyError
         \<and> \<not> is_GeneralError (exn_class_of error)
         \<and> fst (iteration bi cfg env timestamp)
             = [Log INFO (t_requesting @ py_str bi (JDict [(''from_date'', timestamp)]) @ ''.''),
                HttpGet timestamp, Log INFO t_checking, Log ERROR (exn_str bi error),
                Sleep RETRY_PERIOD]
         \<and> sent_texts (fst (iteration bi cfg env timestamp)) = []
         \<and> snd (iteration bi cfg env timestamp) = Inr timestamp"
proof -
  from try_block_without_current_date [OF reply absent]
  obtain m where run: "try_block bi cfg env timestamp
      = ([Log INFO (t_requesting @ py_str bi (JDict [(''from_date'', timestamp)]) @ ''.''),
          HttpGet timestamp, Log INFO t_checking],
         Inl (Exn KeyError m))"
    by blast
  let ?error = "Exn KeyError m"
  have failed: "snd (try_block bi cfg env timestamp) = Inl ?error"
    and other: "\<not> is_GeneralError (exn_class_of ?error)"
    by (simp_all add: run)
  have it: "iteration bi cfg env timestamp
      = ([Log INFO (t_requesting @ py_str bi (JDict [(''from_date'', timestamp)]) @ ''.''),
          HttpGet timestamp, Log INFO t_checking, Log ERROR (exn_str bi ?error),
          Sleep RETRY_PERIOD],
         Inr timestamp)"
    using iteration_other [OF failed other] by (simp add: run)
  have "sent_texts (fst (iteration bi cfg env timestamp)) = []"
    unfolding it by simp
  with failed other it show ?thesis by auto
qed

theorem missing_current_date_logged_only_witness:
  "sent_texts (fst (iteration plain_builtins sample_config
      \<lparr>net = Response 200 (Inr (JDict [(''homeworks'', JList [])])),
       bot_try = Delivered, bot_except = Delivered\<rparr> (JInt 1000))) = []
   \<and> snd (iteration plain_builtins sample_config
      \<lparr>net = Response 200 (Inr (JDict [(''homeworks'', JList [])])),
       bot_try = Delivered, bot_except = Delivered\<rparr> (JInt 1000)) = Inr (JInt 1000)"
proof -
  let ?env = "\<lparr>net = Response 200 (Inr (JDict [(''homeworks'', JList [])])),
       bot_try = Delivered, bot_except = Delivered\<rparr>"
  have reply: "net ?env = Response 200 (Inr (JDict [(''homeworks'', JList [])]))" by simp
  have absent: "\<not> has_key [(''homeworks'', JList [])] ''current_date''"
    by (simp add: has_key_def)
  from missing_current_date_logged_only [OF reply absent] show ?thesis by blast
qed

text \<open>
  Claim C1 says that a \<^verbatim>\<open>MessageNotSentError\<close> raised while the loop reports a
  \<^verbatim>\<open>GeneralError\<close> is caught by \<^verbatim>\<open>except Exception\<close>, so that no exception leaves the
  loop. The clauses of a \<^verbatim>\<open>try\<close> statement guard its body only. With the network down
  and Telegram down in the same pass, the request raises a \<^verbatim>\<open>ConnectionError\<close>, the
  \<^verbatim>\<open>except GeneralError\<close> clause calls \<^verbatim>\<open>send_message\<close>, and its
  \<^verbatim>\<open>MessageNotSentError\<close> leaves the loop after the sleep: the second pass never runs.
\<close>

theorem main_loop_ends_when_error_report_fails:
  "raised_class (main_loop plain_builtins sample_config
      [\<lparr>net = RequestException ''timed out'', bot_try = Delivered,
        bot_except = TelegramError ''Timed out''\<rparr>,
       \<lparr>net = Response 200 (Inr (JDict [(''homeworks'', JList []), (''current_date'', JInt 7)])),
        bot_try = Delivered, bot_except = Delivered\<rparr>] (JInt 0))
     = Some MessageNotSentError
   \<and> fst (main_loop plain_builtins sample_config
      [\<lparr>net = RequestException ''timed out'', bot_try = Delivered,
        bot_except = TelegramError ''Timed out''\<rparr>,
       \<lparr>net = Response 200 (Inr (JDict [(''homeworks'', JList []), (''current_date'', JInt 7)])),
        bot_try = Delivered, bot_except = Delivered\<rparr>] (JInt 0))
     = fst (iteration plain_builtins sample_config
         \<lparr>net = RequestException ''timed out'', bot_try = Delivered,
          bot_except = TelegramError ''Timed out''\<rparr> (JInt 0))"
proof -
  let ?down = "\<lparr>net = RequestException ''timed out'', bot_try = Delivered,
    bot_except = TelegramError ''Timed out''\<rparr>"
  let ?e = "Exn ConnectionError
    (t_connection @ ''timed out'' @ t_paren_request_url @ ENDPOINT @ t_headers
       @ py_str plain_builtins (HEADERS sample_config) @ t_params
       @ py_str plain_builtins (JDict [(''from_date'', JInt 0)]) @ '').'')"
  have failed: "snd (try_block plain_builtins sample_config ?down (JInt 0)) = Inl ?e"
    by (simp add: try_block_when_fetch_fails get_api_answer_snd)
  have general: "is_GeneralError (exn_class_of ?e)" by simp
  let ?e' = "Exn MessageNotSentError
    (t_send_failed @ ''Timed out'' @ t_sending_to @ str_opt (TELEGRAM_CHAT_ID sample_config)
       @ t_text @ exn_str plain_builtins ?e @ '').'')"
  have "snd (iteration plain_builtins sample_config ?down (JInt 0)) = Inl ?e'"
    by (simp add: iteration_general [OF failed general] send_message_snd)
  from main_loop_stops [OF this] show ?thesis
    by (simp add: raised_class_def)
qed

lemma iteration_raises:
  assumes "snd (iteration bi cfg env timestamp) = Inl e'"
  shows "\<exists>error. snd (try_block bi cfg env timestamp) = Inl error
           \<and> is_GeneralError (exn_class_of error)
           \<and> snd (send_message cfg (bot_except env) (exn_str bi error)) = Inl e'
           \<and> exn_class_of e' = MessageNotSentError"
proof (cases "snd (try_block bi cfg env timestamp)")
  case (Inr timestamp')
  with assms show ?thesis by (simp add: iteration_success)
next
  case (Inl error)
  show ?thesis
  proof (cases "is_GeneralError (exn_class_of error)")
    case False
    with Inl assms show ?thesis by (simp add: iteration_other)
  next
    case True
    with Inl assms
    have "snd (send_message cfg (bot_except env) (exn_str bi error)) = Inl e'"
      by (simp add: iteration_general split: sum.splits)
    with Inl True send_message_raises [OF this] show ?thesis by blast
  qed
qed

lemma main_loop_next_request:
  assumes "snd (iteration bi cfg env timestamp) = Inr timestamp'"
  shows "\<exists>rest. fst (main_loop bi cfg (env # env' # envs) timestamp)
           = fst (iteration bi cfg env timestamp)
               @ Log INFO (t_requesting @ py_str bi (JDict [(''from_date'', timestamp')])
                            @ ''.'')
               # HttpGet timestamp' # rest"
proof -
  obtain rest' where first: "fst (iteration bi cfg env' timestamp')
      = Log INFO (t_requesting @ py_str bi (JDict [(''from_date'', timestamp')]) @ ''.'')
        # HttpGet timestamp' # rest'"
    using iteration_starts by blast
  obtain more where "fst (main_loop bi cfg (env' # envs) timestamp')
      = fst (iteration bi cfg env' timestamp') @ more"
    unfolding main_loop.simps using and_then_starts by blast
  with first have "fst (main_loop bi cfg (env' # envs) timestamp')
      = Log INFO (t_requesting @ py_str bi (JDict [(''from_date'', timestamp')]) @ ''.'')
        # HttpGet timestamp' # rest' @ more"
    by (simp del: main_loop.simps)
  then show ?thesis
    unfolding main_loop_continues [OF assms] by (simp del: main_loop.simps)
qed

text \<open>
  Claim C9 says that a response without \<^verbatim>\<open>current_date\<close> makes the loop assign
  \<^verbatim>\<open>None\<close> to the cursor. \<^verbatim>\<open>check_response\<close> raises a \<^verbatim>\<open>KeyError\<close> on such a response,
  so the assignment is never reached: from cursor 1000 the pass ends with cursor 1000.
\<close>

theorem cursor_kept_without_current_date_counterexample:
  "\<not> has_key [(''homeworks'', JList [])] ''current_date''
   \<and> snd (iteration plain_builtins sample_config
        \<lparr>net = Response 200 (Inr (JDict [(''homeworks'', JList [])])),
         bot_try = Delivered, bot_except = Delivered\<rparr> (JInt 1000)) = Inr (JInt 1000)
   \<and> JInt 1000 \<noteq> JNull"
proof -
  let ?env = "\<lparr>net = Response 200 (Inr (JDict [(''homeworks'', JList [])])),
       bot_try = Delivered, bot_except = Delivered\<rparr>"
  have absent: "\<not> has_key [(''homeworks'', JList [])] ''current_date''"
    by (simp add: has_key_def)
  have "net ?env = Response 200 (Inr (JDict [(''homeworks'', JList [])]))" by simp
  from try_block_without_current_date
    [OF this absent, of plain_builtins sample_config "JInt 1000"]
  obtain m where failed: "snd (try_block plain_builtins sample_config ?env (JInt 1000))
      = Inl (Exn KeyError m)"
    by fastforce
  have "\<not> is_GeneralError (exn_class_of (Exn KeyError m))" by simp
  from iteration_other [OF failed this] absent show ?thesis by simp
qed

text \<open>
  Claim C9, amended. When the response lacks the \<^verbatim>\<open>current_date\<close> key the cursor keeps
  its value and the next request carries the same \<^verbatim>\<open>from_date\<close> as this one. The cursor
  becomes \<^verbatim>\<open>None\<close> only when the response has the key, bound to \<^verbatim>\<open>null\<close>.
\<close>

theorem cursor_kept_without_current_date:
  "(\<forall>d. net env = Response 200 (Inr (JDict d)) \<longrightarrow> \<not> has_key d ''current_date'' \<longrightarrow>
      snd (iteration bi cfg env timestamp) = Inr timestamp
      \<and> (\<forall>env' envs. \<exists>rest.
            fst (main_loop bi cfg (env # env' # envs) timestamp)
              = fst (iteration bi cfg env timestamp)
                  @ Log INFO (t_requesting @ py_str bi (JDict [(''from_date'', timestamp)])
                               @ ''.'')
                  # HttpGet timestamp # rest))
   \<and> (snd (try_block bi cfg env timestamp) = Inr JNull \<longrightarrow>
      (\<exists>d. net env = Response 200 (Inr (JDict d)) \<and> map_of d ''current_date'' = Some JNull))"
proof (intro conjI allI impI)
  fix d
  assume reply: "net env = Response 200 (Inr (JDict d))"
    and absent: "\<not> has_key d ''current_date''"
  from try_block_without_current_date [OF reply absent, of bi cfg timestamp]
  obtain m where failed: "snd (try_block bi cfg env timestamp) = Inl (Exn KeyError m)"
    by fastforce
  have "\<not> is_GeneralError (exn_class_of (Exn KeyError m))" by simp
  from iteration_other [OF failed this]
  show kept: "snd (iteration bi cfg env timestamp) = Inr timestamp" by simp
  fix env' envs
  show "\<exists>rest. fst (main_loop bi cfg (env # env' # envs) timestamp)
      = fst (iteration bi cfg env timestamp)
          @ Log INFO (t_requesting @ py_str bi (JDict [(''from_date'', timestamp)]) @ ''.'')
          # HttpGet timestamp # rest"
    by (rule main_loop_next_request [OF kept])
next
  assume "snd (try_block bi cfg env timestamp) = Inr JNull"
  then show "\<exists>d. net env = Response 200 (Inr (JDict d)) \<and> map_of d ''current_date'' = Some JNull"
    by (rule try_block_returns) blast
qed

theorem cursor_kept_without_current_date_witness:
  "snd (iteration plain_builtins sample_config
      \<lparr>net = Response 200 (Inr (JDict [(''homeworks'', JList [])])),
       bot_try = Delivered, bot_except = Delivered\<rparr> (JInt 1000)) = Inr (JInt 1000)
   \<and> snd (try_block plain_builtins sample_config
      \<lparr>net = Response 200 (Inr (JDict [(''homeworks'', JList []), (''current_date'', JNull)])),
       bot_try = Delivered, bot_except = Delivered\<rparr> (JInt 1000)) = Inr JNull
   \<and> (\<exists>d. net \<lparr>net = Response 200
                 (Inr (JDict [(''homeworks'', JList []), (''current_date'', JNull)])),
               bot_try = Delivered, bot_except = Delivered\<rparr>
            = Response 200 (Inr (JDict d))
          \<and> map_of d ''current_date'' = Some JNull)"
proof -
  let ?without = "\<lparr>net = Response 200 (Inr (JDict [(''homeworks'', JList [])])),
       bot_try = Delivered, bot_except = Delivered\<rparr>"
  let ?d = "[(''homeworks'', JList []), (''current_date'', JNull)]"
  let ?null = "\<lparr>net = Response 200 (Inr (JDict ?d)), bot_try = Delivered,
       bot_except = Delivered\<rparr>"
  have reply: "net ?without = Response 200 (Inr (JDict [(''homeworks'', JList [])]))" by simp
  have absent: "\<not> has_key [(''homeworks'', JList [])] ''current_date''"
    by (simp add: has_key_def)
  from cursor_kept_without_current_date
    [of ?without plain_builtins sample_config "JInt 1000", THEN conjunct1, rule_format,
      OF reply absent]
  have kept: "snd (iteration plain_builtins sample_config ?without (JInt 1000))
      = Inr (JInt 1000)"
    by blast
  have "snd (try_block plain_builtins sample_config ?null (JInt 1000))
      = Inr (dict_get ?d ''current_date'')"
    by (rule try_block_when_sent [where homeworks = "[]" and message = t_no_new])
       (simp_all add: get_api_answer_snd check_response_dict has_key_def dict_get_def)
  then have null: "snd (try_block plain_builtins sample_config ?null (JInt 1000)) = Inr JNull"
    by (simp add: dict_get_def)
  from cursor_kept_without_current_date
    [of ?null plain_builtins sample_config "JInt 1000", THEN conjunct2, rule_format, OF null]
  have "\<exists>d. net ?null = Response 200 (Inr (JDict d)) \<and> map_of d ''current_date'' = Some JNull" .
  with kept null show ?thesis by blast
qed

text \<open>
  Claim C10. \<^verbatim>\<open>check_response\<close> looks at the presence of \<^verbatim>\<open>current_date\<close> only. For a
  response that binds \<^verbatim>\<open>homeworks\<close> to a list and \<^verbatim>\<open>current_date\<close> to any value at all,
  validation succeeds and returns the list; after a pass that succeeds that value is
  the cursor, and the next request is made with it as \<^verbatim>\<open>from_date\<close>.
\<close>

theorem current_date_value_unchecked:
  assumes reply: "net env = Response 200 (Inr (JDict d))"
    and hw: "map_of d ''homeworks'' = Some (JList homeworks)"
    and cd: "map_of d ''current_date'' = Some v"
    and success: "snd (try_block bi cfg env timestamp) = Inr timestamp'"
  shows "check_response bi (JDict d) = ([Log INFO t_checking], Inr homeworks)
       \<and> timestamp' = v
       \<and> snd (iteration bi cfg env timestamp) = Inr v
       \<and> (\<forall>env' envs. \<exists>rest.
             fst (main_loop bi cfg (env # env' # envs) timestamp)
               = fst (iteration bi cfg env timestamp)
                   @ Log INFO (t_requesting @ py_str bi (JDict [(''from_date'', v)]) @ ''.'')
                   # HttpGet v # rest)"
proof -
  from hw cd have valid: "check_response bi (JDict d) = ([Log INFO t_checking], Inr homeworks)"
    by (simp add: check_response_dict has_key_def dict_get_def)
  from success obtain d' where "net env = Response 200 (Inr (JDict d'))"
    "map_of d' ''current_date'' = Some timestamp'"
    by (rule try_block_returns)
  with reply cd have same: "timestamp' = v" by simp
  with success have cursor: "snd (iteration bi cfg env timestamp) = Inr v"
    by (simp add: iteration_success)
  have "\<exists>rest. fst (main_loop bi cfg (env # env' # envs) timestamp)
      = fst (iteration bi cfg env timestamp)
          @ Log INFO (t_requesting @ py_str bi (JDict [(''from_date'', v)]) @ ''.'')
          # HttpGet v # rest" for env' envs
    by (rule main_loop_next_request [OF cursor])
  with valid same cursor show ?thesis by blast
qed

theorem current_date_value_unchecked_witness:
  "check_response plain_builtins
      (JDict [(''homeworks'', JList []), (''current_date'', JStr ''soon'')])
     = ([Log INFO t_checking], Inr [])
   \<and> snd (iteration plain_builtins sample_config
      \<lparr>net = Response 200
         (Inr (JDict [(''homeworks'', JList []), (''current_date'', JStr ''soon'')])),
       bot_try = Delivered, bot_except = Delivered\<rparr> (JInt 5)) = Inr (JStr ''soon'')"
proof -
  let ?d = "[(''homeworks'', JList []), (''current_date'', JStr ''soon'')]"
  let ?env = "\<lparr>net = Response 200 (Inr (JDict ?d)), bot_try = Delivered,
       bot_except = Delivered\<rparr>"
  have reply: "net ?env = Response 200 (Inr (JDict ?d))" by simp
  have hw: "map_of ?d ''homeworks'' = Some (JList [])" by simp
  have cd: "map_of ?d ''current_date'' = Some (JStr ''soon'')" by simp
  have "snd (try_block plain_builtins sample_config ?env (JInt 5))
      = Inr (dict_get ?d ''current_date'')"
    by (rule try_block_when_sent [where homeworks = "[]" and message = t_no_new])
       (simp_all add: get_api_answer_snd check_response_dict has_key_def dict_get_def)
  then have success: "snd (try_block plain_builtins sample_config ?env (JInt 5))
      = Inr (JStr ''soon'')"
    by (simp add: dict_get_def)
  from current_date_value_unchecked [OF reply hw cd success] show ?thesis by blast
qed

end
